theory Spec2Isabelle
  imports Main "HOL-Library.AList"
begin

section \<open>The IperChain simplified node\<close>

text \<open>
  A shallow embedding of the node in \<^verbatim>\<open>producer/wine-producer-cli.js.bak\<close>
  (``IperChain Simplified Node'': the \<^verbatim>\<open>state\<close> object, \<^verbatim>\<open>AUTHORITIES\<close>,
  \<^verbatim>\<open>initGenesisBlock\<close>, the gossip handlers, \<^verbatim>\<open>validateBlock\<close>, \<^verbatim>\<open>addBlock\<close>,
  \<^verbatim>\<open>handleRPCRequest\<close>, \<^verbatim>\<open>processMethod\<close>, \<^verbatim>\<open>createTransaction\<close> and
  \<^verbatim>\<open>mineBlock\<close>) and of the part of \<^verbatim>\<open>network/p2p-node.js\<close> it calls.

  The global \<^verbatim>\<open>state\<close> and \<^verbatim>\<open>currentAuthorityIndex\<close> become one record that every
  function takes and returns. A JavaScript exception is a value of \<open>js_error\<close>; a
  function that can throw after it has mutated the state returns the state it left
  behind together with the error. Library calls whose results the node only stores or
  compares are parameters: \<open>H\<close> is the SHA-256 hex digest of a string, \<open>J\<close> is
  \<^verbatim>\<open>JSON.stringify\<close> of a request argument, \<open>now\<close> is \<^verbatim>\<open>Date.now()\<close>.
\<close>

subsection \<open>JavaScript values\<close>

datatype js_error = TypeError | ReferenceError | SyntaxError | Error string

text \<open>
  A quantity field holds either a JavaScript number (\<open>Num n\<close>, as in the genesis block)
  or the string \<^verbatim>\<open>'0x' + n.toString(16)\<close> (\<open>HexStr n\<close>, as in every mined block and
  transaction).
\<close>

datatype jsnum = Num nat | HexStr nat

text \<open>
  \<^verbatim>\<open>block.number + 1\<close> as \<^verbatim>\<open>Math.max\<close> reads it. On a number it is the successor.
  On the string \<^verbatim>\<open>'0x<digits>'\<close> the \<^verbatim>\<open>+\<close> is string concatenation and gives
  \<^verbatim>\<open>'0x<digits>1'\<close>, which \<^verbatim>\<open>Math.max\<close> converts to the number \<open>16 * n + 1\<close>.
\<close>

fun plus_one :: "jsnum \<Rightarrow> nat" where
  "plus_one (Num n) = n + 1"
| "plus_one (HexStr n) = 16 * n + 1"

text \<open>
  The \<^verbatim>\<open>value\<close> of a transaction as the node reads it: \<open>Falsy\<close> is a value that fails
  the test \<^verbatim>\<open>tx.value && ...\<close> (absent, empty, the number 0), \<open>Amount v\<close> is a truthy
  value that \<^verbatim>\<open>BigInt\<close> converts to \<open>v\<close> (a decimal or \<^verbatim>\<open>0x\<close> string, a number),
  \<open>Unparsable\<close> is a truthy value on which \<^verbatim>\<open>BigInt\<close> throws a SyntaxError.
\<close>

datatype jsamount = Falsy | Amount int | Unparsable

definition truthy :: "string option \<Rightarrow> bool" where
  "truthy x = (case x of None \<Rightarrow> False | Some v \<Rightarrow> v \<noteq> [])"

definition hex_digit :: "nat \<Rightarrow> char" where
  "hex_digit d = ''0123456789abcdef'' ! d"

fun toString16 :: "nat \<Rightarrow> string" where
  "toString16 n =
     (if n < 16 then [hex_digit n] else toString16 (n div 16) @ [hex_digit (n mod 16)])"

declare toString16.simps [simp del]

fun toString10 :: "nat \<Rightarrow> string" where
  "toString10 n =
     (if n < 10 then [hex_digit n] else toString10 (n div 10) @ [hex_digit (n mod 10)])"

declare toString10.simps [simp del]

text \<open>The string a quantity is when it is concatenated into a hash input.\<close>

fun render :: "jsnum \<Rightarrow> string" where
  "render (Num n) = toString10 n"
| "render (HexStr n) = ''0x'' @ toString16 n"

definition hex_of_int :: "int \<Rightarrow> string" where
  "hex_of_int i = (if i < 0 then ''-'' @ toString16 (nat (- i)) else toString16 (nat i))"

fun includes_str :: "string \<Rightarrow> string \<Rightarrow> bool" where
  "includes_str [] sub = (sub = [])"
| "includes_str (c # cs) sub = (take (length sub) (c # cs) = sub \<or> includes_str cs sub)"

definition startsWith :: "string \<Rightarrow> string \<Rightarrow> bool" where
  "startsWith s p = (take (length p) s = p)"

subsection \<open>The data model\<close>

record account =
  balance :: int
  nonce :: nat

text \<open>
  An address is the property key under which \<^verbatim>\<open>state.accounts\<close> stores the account.
  \<open>tx_to\<close> is \<open>None\<close> for \<^verbatim>\<open>null\<close> or an absent field. The last three fields are the
  ones \<^verbatim>\<open>mineBlock\<close> adds to the transaction object.
\<close>

record transaction =
  tx_hash :: string
  tx_from :: string
  tx_to :: "string option"
  tx_value :: jsamount
  tx_gas :: string
  tx_gasPrice :: string
  tx_input :: string
  tx_nonce :: jsnum
  tx_contractAddress :: "string option"
  tx_blockNumber :: "jsnum option"
  tx_blockHash :: "string option"

record block =
  b_number :: jsnum
  b_hash :: "string option"
  b_parentHash :: "string option"
  b_timestamp :: jsnum
  b_transactions :: "transaction list"
  b_miner :: "string option"
  b_difficulty :: jsnum
  b_totalDifficulty :: jsnum
  b_size :: jsnum
  b_gasUsed :: jsnum
  b_gasLimit :: jsnum

record contract =
  bytecode :: string
  storage :: "(string \<times> string) list"
  creator :: string

text \<open>
  The objects \<^verbatim>\<open>state.accounts\<close> and \<^verbatim>\<open>state.contracts\<close> are association lists in
  insertion order (the order \<^verbatim>\<open>Object.keys\<close> reports), read with \<open>map_of\<close> and written
  with \<open>AList.update\<close>. Their keys are taken to be neither array indices nor names of
  properties that every object inherits (\<^verbatim>\<open>constructor\<close>, \<^verbatim>\<open>toString\<close>).
  \<open>miningInterval\<close> records whether the interval timer is armed; \<open>p2pNode\<close> whether
  \<^verbatim>\<open>state.p2pNode\<close> is set; \<open>currentAuthorityIndex\<close> is the global of that name.
\<close>

record node_state =
  blocks :: "block list"
  transactions :: "transaction list"
  pendingTransactions :: "transaction list"
  contracts :: "(string \<times> contract) list"
  accounts :: "(string \<times> account) list"
  nextBlockNumber :: nat
  mining :: bool
  miningInterval :: bool
  p2pNode :: bool
  currentAuthorityIndex :: nat

definition AUTHORITIES :: "string list" where
  "AUTHORITIES =
     [''0x742d35Cc6634C0532925a3b844Bc454e4438f44e'',
      ''0x123f681646d4a755815f9cb19e1acc8565a0c2ac'',
      ''0x456f681646d4a755815f9cb19e1acc8565a0c2ac'',
      ''0x999f681646d4a755815f9cb19e1acc8565a0c2ac'']"

definition state0 :: node_state where
  "state0 = \<lparr> blocks = [], transactions = [], pendingTransactions = [], contracts = [],
      accounts = [], nextBlockNumber = 0, mining = False, miningInterval = False,
      p2pNode = False, currentAuthorityIndex = 0 \<rparr>"

definition zero_hash :: string where
  "zero_hash = ''0x'' @ replicate 64 (CHR ''0'')"

definition genesis_account :: account where
  "genesis_account = \<lparr> balance = 1000000000000000000000, nonce = 0 \<rparr>"

definition initGenesisBlock :: "(string \<Rightarrow> string) \<Rightarrow> nat \<Rightarrow> node_state \<Rightarrow> node_state" where
  "initGenesisBlock H now s =
     (let timestamp = now div 1000;
          genesisBlock = \<lparr> b_number = Num 0,
            b_hash = Some (''0x'' @ H (''genesis-'' @ toString10 timestamp)),
            b_parentHash = Some zero_hash,
            b_timestamp = Num timestamp,
            b_transactions = [],
            b_miner = Some (''0x'' @ replicate 40 (CHR ''0'')),
            b_difficulty = HexStr 1, b_totalDifficulty = HexStr 1, b_size = HexStr 0,
            b_gasUsed = HexStr 0, b_gasLimit = HexStr 16777216 \<rparr>
      in s \<lparr> blocks := blocks s @ [genesisBlock],
             nextBlockNumber := 1,
             accounts :=
               AList.update ''0x999f681646d4a755815f9cb19e1acc8565a0c2ac'' genesis_account
                (AList.update ''0x456f681646d4a755815f9cb19e1acc8565a0c2ac'' genesis_account
                  (AList.update ''0x123f681646d4a755815f9cb19e1acc8565a0c2ac'' genesis_account
                    (AList.update ''0x742d35Cc6634C0532925a3b844Bc454e4438f44e'' genesis_account
                      (accounts s)))) \<rparr>)"

subsection \<open>Gossip handlers, validation and the chain mutator\<close>

text \<open>The \<^verbatim>\<open>transaction\<close> handler registered by \<^verbatim>\<open>initP2PNode\<close>.\<close>

definition on_transaction :: "node_state \<Rightarrow> transaction \<Rightarrow> node_state" where
  "on_transaction s tx =
     (if find (\<lambda>t. tx_hash t = tx_hash tx) (pendingTransactions s) = None
      then s \<lparr> pendingTransactions := pendingTransactions s @ [tx] \<rparr>
      else s)"

definition validateBlock :: "node_state \<Rightarrow> block \<Rightarrow> bool" where
  "validateBlock s b =
     (if \<not> truthy (b_hash b) \<or> \<not> truthy (b_parentHash b) then False
      else if find (\<lambda>p. b_hash p = b_parentHash b) (blocks s) = None \<and> b_number b \<noteq> Num 0
        then False
      else if \<not> (case b_miner b of None \<Rightarrow> False | Some m \<Rightarrow> m \<in> set AUTHORITIES)
        then False
      else True)"

definition addBlock :: "node_state \<Rightarrow> block \<Rightarrow> node_state" where
  "addBlock s b =
     (if find (\<lambda>x. b_hash x = b_hash b) (blocks s) \<noteq> None then s
      else s \<lparr> blocks := blocks s @ [b],
               nextBlockNumber := max (nextBlockNumber s) (plus_one (b_number b)),
               pendingTransactions :=
                 filter (\<lambda>tx. tx_hash tx \<notin> set (map tx_hash (b_transactions b)))
                   (pendingTransactions s),
               transactions := transactions s @ b_transactions b \<rparr>)"

text \<open>
  The \<^verbatim>\<open>block\<close> handler registered by \<^verbatim>\<open>initP2PNode\<close>, taken as one step:
  \<^verbatim>\<open>validateBlock\<close> has no \<^verbatim>\<open>await\<close> of its own and reads the state without writing it.
\<close>

definition on_block :: "node_state \<Rightarrow> block \<Rightarrow> node_state" where
  "on_block s b = (if validateBlock s b then addBlock s b else s)"

subsection \<open>Block production\<close>

text \<open>
  The test \<^verbatim>\<open>tx.to && tx.value && BigInt(tx.value) > 0\<close>: the amount to move, if any.
  \<^verbatim>\<open>BigInt\<close> is reached, and can throw, only when \<^verbatim>\<open>tx.to\<close> and \<^verbatim>\<open>tx.value\<close> are
  truthy.
\<close>

definition transfer_amount :: "transaction \<Rightarrow> js_error + int option" where
  "transfer_amount tx =
     (if \<not> truthy (tx_to tx) then Inr None
      else case tx_value tx of
             Falsy \<Rightarrow> Inr None
           | Unparsable \<Rightarrow> Inl SyntaxError
           | Amount v \<Rightarrow> Inr (if v > 0 then Some v else None))"

definition debit :: "node_state \<Rightarrow> string \<Rightarrow> int \<Rightarrow> node_state" where
  "debit s a v =
     (case map_of (accounts s) a of
        Some acc \<Rightarrow> s \<lparr> accounts := AList.update a (acc \<lparr> balance := balance acc - v \<rparr>) (accounts s) \<rparr>
      | None \<Rightarrow> s)"

definition credit :: "node_state \<Rightarrow> string \<Rightarrow> int \<Rightarrow> node_state" where
  "credit s a v =
     (case map_of (accounts s) a of
        Some acc \<Rightarrow> s \<lparr> accounts := AList.update a (acc \<lparr> balance := balance acc + v \<rparr>) (accounts s) \<rparr>
      | None \<Rightarrow> s \<lparr> accounts := AList.update a \<lparr> balance = v, nonce = 0 \<rparr> (accounts s) \<rparr>)"

definition block_seed :: "nat \<Rightarrow> nat \<Rightarrow> string" where
  "block_seed blockNumber timestamp =
     ''block-'' @ toString10 blockNumber @ ''-'' @ toString10 timestamp"

text \<open>
  One iteration of the \<^verbatim>\<open>forEach\<close> in \<^verbatim>\<open>mineBlock\<close>. It returns the state and the
  transaction object as the iteration leaves them; the only throw stands before the
  first mutation of the iteration.
\<close>

definition processTransaction ::
  "(string \<Rightarrow> string) \<Rightarrow> nat \<Rightarrow> nat \<Rightarrow> node_state \<Rightarrow> transaction
     \<Rightarrow> js_error + (node_state \<times> transaction)" where
  "processTransaction H blockNumber timestamp s tx =
     (case transfer_amount tx of
        Inl e \<Rightarrow> Inl e
      | Inr amt \<Rightarrow>
          (let s1 = (case amt of
                       None \<Rightarrow> s
                     | Some v \<Rightarrow> (case tx_to tx of
                                    None \<Rightarrow> s
                                  | Some recipient \<Rightarrow> credit (debit s (tx_from tx) v) recipient v));
               contractAddress = ''0x'' @ take 40 (H (tx_hash tx @ render (tx_nonce tx)));
               creates = (\<not> truthy (tx_to tx) \<and> tx_input tx \<noteq> []);
               s2 = (if creates
                     then s1 \<lparr> contracts :=
                            AList.update contractAddress
                              \<lparr> bytecode = tx_input tx, storage = [], creator = tx_from tx \<rparr>
                              (contracts s1) \<rparr>
                     else s1);
               tx1 = (if creates then tx \<lparr> tx_contractAddress := Some contractAddress \<rparr> else tx)
           in Inr (s2, tx1 \<lparr> tx_blockNumber := Some (HexStr blockNumber),
                            tx_blockHash := Some (''0x'' @ H (block_seed blockNumber timestamp)) \<rparr>)))"

text \<open>
  The whole \<^verbatim>\<open>forEach\<close>. The list returned holds the transaction objects after the
  loop: the ones processed with their new fields, the others (after a throw) as they
  were. A throw keeps the mutations of the iterations before it.
\<close>

fun processTransactions ::
  "(string \<Rightarrow> string) \<Rightarrow> nat \<Rightarrow> nat \<Rightarrow> node_state \<Rightarrow> transaction list
     \<Rightarrow> node_state \<times> transaction list \<times> js_error option" where
  "processTransactions H blockNumber timestamp s [] = (s, [], None)"
| "processTransactions H blockNumber timestamp s (tx # txs) =
     (case processTransaction H blockNumber timestamp s tx of
        Inl e \<Rightarrow> (s, tx # txs, Some e)
      | Inr (s1, tx1) \<Rightarrow>
          (case processTransactions H blockNumber timestamp s1 txs of
             (s2, txs1, r) \<Rightarrow> (s2, tx1 # txs1, r)))"

text \<open>
  \<^verbatim>\<open>mineBlock\<close> is an async function: it runs to its first \<^verbatim>\<open>await\<close> when called.
  \<open>NoPending\<close> is the early return on an empty pool, \<open>Threw e\<close> a rejection, \<open>Awaiting b\<close>
  the suspension at \<^verbatim>\<open>await state.p2pNode.broadcastBlock(newBlock)\<close> (the rest,
  \<open>mineBlock_resume\<close>, runs when the broadcast has settled; \<^verbatim>\<open>broadcastBlock\<close> catches
  its own errors), \<open>Mined b\<close> the return when there is no P2P node to wait for.

  The objects in the snapshot \<^verbatim>\<open>[...state.pendingTransactions]\<close> are the pool's own
  objects, so the fields the loop adds show in the pool as well.
\<close>

datatype mine_outcome = NoPending | Threw js_error | Awaiting block | Mined block

definition selectAuthority :: "nat \<Rightarrow> string option \<times> nat" where
  "selectAuthority i =
     (if i < length AUTHORITIES then Some (AUTHORITIES ! i) else None,
      (i + 1) mod length AUTHORITIES)"

definition mineBlock :: "(string \<Rightarrow> string) \<Rightarrow> nat \<Rightarrow> node_state \<Rightarrow> node_state \<times> mine_outcome" where
  "mineBlock H now s =
     (if pendingTransactions s = [] then (s, NoPending)
      else
        (let currentAuthority = fst (selectAuthority (currentAuthorityIndex s));
             s1 = s \<lparr> currentAuthorityIndex := snd (selectAuthority (currentAuthorityIndex s)) \<rparr>;
             blockNumber = nextBlockNumber s1;
             timestamp = now div 1000
         in if blockNumber = 0 \<or> length (blocks s1) < blockNumber then (s1, Threw TypeError)
            else
              (let parentHash = b_hash (blocks s1 ! (blockNumber - 1))
               in case processTransactions H blockNumber timestamp s1 (pendingTransactions s1) of
                    (s2, txs, Some e) \<Rightarrow> (s2 \<lparr> pendingTransactions := txs \<rparr>, Threw e)
                  | (s2, txs, None) \<Rightarrow>
                      (let s3 = s2 \<lparr> pendingTransactions := txs \<rparr>;
                           newBlock = \<lparr> b_number = HexStr blockNumber,
                             b_hash = Some (''0x'' @ H (block_seed blockNumber timestamp)),
                             b_parentHash = parentHash,
                             b_timestamp = HexStr timestamp,
                             b_transactions = txs,
                             b_miner = currentAuthority,
                             b_difficulty = HexStr 1,
                             b_totalDifficulty = HexStr (blockNumber + 1),
                             b_size = HexStr (1000 + length txs * 500),
                             b_gasUsed = HexStr (length txs * 21000),
                             b_gasLimit = HexStr 16777216 \<rparr>
                       in if p2pNode s3 then (s3, Awaiting newBlock)
                          else (addBlock s3 newBlock, Mined newBlock)))))"

definition mineBlock_resume :: "node_state \<Rightarrow> block \<Rightarrow> node_state \<times> mine_outcome" where
  "mineBlock_resume s newBlock = (addBlock s newBlock, Mined newBlock)"

definition startMining :: "node_state \<Rightarrow> node_state" where
  "startMining s = (if mining s then s else s \<lparr> mining := True, miningInterval := True \<rparr>)"

definition stopMining :: "node_state \<Rightarrow> node_state" where
  "stopMining s = (if \<not> mining s then s else s \<lparr> mining := False, miningInterval := False \<rparr>)"

definition initP2PNode :: "node_state \<Rightarrow> node_state" where
  "initP2PNode s = s \<lparr> p2pNode := True \<rparr>"

text \<open>\<^verbatim>\<open>startServer\<close> up to the moment the server listens.\<close>

definition startServer :: "(string \<Rightarrow> string) \<Rightarrow> nat \<Rightarrow> node_state" where
  "startServer H now = startMining (initP2PNode (initGenesisBlock H now state0))"

subsection \<open>The JSON-RPC dispatcher\<close>

text \<open>
  A request argument is a string, a boolean or an object with the members a transaction
  or call object can have. \<open>p_from\<close> is the property key \<^verbatim>\<open>state.accounts[params.from]\<close>
  looks up (\<^verbatim>\<open>'undefined'\<close> when the member is absent); an optional member is \<open>None\<close>
  when absent.
\<close>

record tx_params =
  p_from :: string
  p_to :: "string option"
  p_value :: jsamount
  p_gas :: "string option"
  p_gasPrice :: "string option"
  p_data :: "string option"

datatype jsarg = AStr string | ABool bool | AObj tx_params

text \<open>The members read from an argument; a string or a boolean has none of them.\<close>

fun fields_of :: "jsarg \<Rightarrow> tx_params" where
  "fields_of (AObj p) = p"
| "fields_of _ = \<lparr> p_from = ''undefined'', p_to = None, p_value = Falsy, p_gas = None,
      p_gasPrice = None, p_data = None \<rparr>"

text \<open>The string an argument becomes as a property key or under \<^verbatim>\<open>parseInt\<close>.\<close>

fun arg_string :: "jsarg option \<Rightarrow> string" where
  "arg_string None = ''undefined''"
| "arg_string (Some (AStr s)) = s"
| "arg_string (Some (ABool b)) = (if b then ''true'' else ''false'')"
| "arg_string (Some (AObj p)) = ''[object Object]''"

fun arg_truthy :: "jsarg option \<Rightarrow> bool" where
  "arg_truthy None = False"
| "arg_truthy (Some (AStr s)) = (s \<noteq> [])"
| "arg_truthy (Some (ABool b)) = b"
| "arg_truthy (Some (AObj p)) = True"

definition or_default :: "string option \<Rightarrow> string \<Rightarrow> string" where
  "or_default x d = (if truthy x then (case x of Some v \<Rightarrow> v | None \<Rightarrow> d) else d)"

definition hex_value :: "char \<Rightarrow> nat option" where
  "hex_value c = map_of (zip ''0123456789abcdef'' [0..<16] @ zip ''ABCDEF'' [10..<16]) c"

definition is_space :: "char \<Rightarrow> bool" where
  "is_space c = (c \<in> set [CHR '' '', CHR 0x09, CHR 0x0A, CHR 0x0B, CHR 0x0C, CHR 0x0D])"

text \<open>\<^verbatim>\<open>parseInt(s, 16)\<close>; \<open>None\<close> is \<^verbatim>\<open>NaN\<close>.\<close>

definition parseInt16 :: "string \<Rightarrow> int option" where
  "parseInt16 s =
     (let s1 = dropWhile is_space s;
          negative = (take 1 s1 = ''-'');
          s2 = (if take 1 s1 = ''-'' \<or> take 1 s1 = ''+'' then drop 1 s1 else s1);
          s3 = (if take 2 s2 = ''0x'' \<or> take 2 s2 = ''0X'' then drop 2 s2 else s2);
          digits = List.map_filter hex_value (takeWhile (\<lambda>c. hex_value c \<noteq> None) s3);
          magnitude = int (foldl (\<lambda>a d. 16 * a + d) 0 digits)
      in if digits = [] then None else Some (if negative then - magnitude else magnitude))"

record receipt =
  r_transactionHash :: string
  r_transactionIndex :: string
  r_blockHash :: string
  r_blockNumber :: jsnum
  r_from :: string
  r_to :: "string option"
  r_cumulativeGasUsed :: string
  r_gasUsed :: string
  r_contractAddress :: "string option"
  r_logs :: "string list"
  r_status :: string

text \<open>
  What \<^verbatim>\<open>processMethod\<close> returns. \<open>RBlockHashes b hs\<close> is the copy of \<open>b\<close> whose
  \<^verbatim>\<open>transactions\<close> member has been replaced by the hashes \<open>hs\<close>; \<open>REmpty\<close> is the
  empty object \<^verbatim>\<open>{...undefined}\<close>.
\<close>

datatype rpc_result =
    RNull | RStr string | RBool bool | RStrs "string list" | RTx transaction
  | RReceipt receipt | RBlock block | RBlockHashes block "string list" | REmpty

text \<open>
  What a call leaves for the event loop: a block whose broadcast \<^verbatim>\<open>mineBlock\<close> awaits,
  and the timer \<^verbatim>\<open>setTimeout(() => mineBlock(), 500)\<close>.
\<close>

datatype effect = BroadcastBlock block | SetTimeoutMineBlock

definition DEFAULT_SENDER :: string where
  "DEFAULT_SENDER = ''0x742d35Cc6634C0532925a3b844Bc454e4438f44e''"

definition createTransaction ::
  "(string \<Rightarrow> string) \<Rightarrow> (jsarg \<Rightarrow> string) \<Rightarrow> nat \<Rightarrow> node_state \<Rightarrow> jsarg option
     \<Rightarrow> js_error + (node_state \<times> transaction)" where
  "createTransaction H J now s arg =
     (case arg of
        None \<Rightarrow> Inl TypeError
      | Some a \<Rightarrow>
          (let params = fields_of a;
               hash = ''0x'' @ H (J a @ toString10 now)
           in case map_of (accounts s) (p_from params) of
                None \<Rightarrow> Inl TypeError
              | Some acc \<Rightarrow>
                  Inr (s \<lparr> accounts :=
                         AList.update (p_from params) (acc \<lparr> nonce := nonce acc + 1 \<rparr>) (accounts s) \<rparr>,
                       \<lparr> tx_hash = hash,
                         tx_from = p_from params,
                         tx_to = p_to params,
                         tx_value = (case p_value params of Falsy \<Rightarrow> Amount 0 | v \<Rightarrow> v),
                         tx_gas = or_default (p_gas params) ''0x5208'',
                         tx_gasPrice = or_default (p_gasPrice params) ''0x3b9aca00'',
                         tx_input = or_default (p_data params) ''0x'',
                         tx_nonce = HexStr (nonce acc),
                         tx_contractAddress = None,
                         tx_blockNumber = None,
                         tx_blockHash = None \<rparr>)))"

text \<open>\<^verbatim>\<open>params[i]\<close> on an array; \<open>None\<close> is \<^verbatim>\<open>undefined\<close>.\<close>

definition param :: "jsarg list \<Rightarrow> nat \<Rightarrow> jsarg option" where
  "param ps i = (if i < length ps then Some (ps ! i) else None)"

text \<open>
  The cases of the \<^verbatim>\<open>switch\<close> in \<^verbatim>\<open>processMethod\<close> that read \<^verbatim>\<open>params\<close> or the state,
  one definition per case. \<^verbatim>\<open>params\<close> is \<open>None\<close> when the request has no such member,
  and then \<^verbatim>\<open>params[0]\<close> throws a TypeError.
\<close>

definition eth_getBlockByNumber :: "node_state \<Rightarrow> jsarg list option \<Rightarrow> js_error + rpc_result" where
  "eth_getBlockByNumber s params =
     (case params of
        None \<Rightarrow> Inl TypeError
      | Some ps \<Rightarrow>
          (let blockNumber = parseInt16 (arg_string (param ps 0));
               includeTransactions = arg_truthy (param ps 1);
               absent = (if includeTransactions then Inr REmpty else Inl TypeError)
           in case blockNumber of
                None \<Rightarrow> absent
              | Some n \<Rightarrow>
                  if n \<ge> int (length (blocks s)) then Inl (Error ''Block not found'')
                  else if n < 0 then absent
                  else (let b = blocks s ! nat n
                        in if includeTransactions then Inr (RBlock b)
                           else Inr (RBlockHashes b (map tx_hash (b_transactions b))))))"

definition eth_getTransactionByHash :: "node_state \<Rightarrow> jsarg list option \<Rightarrow> js_error + rpc_result" where
  "eth_getTransactionByHash s params =
     (case params of
        None \<Rightarrow> Inl TypeError
      | Some ps \<Rightarrow>
          (case find (\<lambda>t. param ps 0 = Some (AStr (tx_hash t))) (transactions s) of
             None \<Rightarrow> Inr RNull
           | Some tx \<Rightarrow> Inr (RTx tx)))"

text \<open>
  \<^verbatim>\<open>IperChainP2PNode\<close> has no method \<^verbatim>\<open>broadcastTransaction\<close>, so the call
  \<^verbatim>\<open>state.p2pNode.broadcastTransaction(newTx)\<close> throws a TypeError whenever
  \<^verbatim>\<open>state.p2pNode\<close> is set, after the transaction has been pushed.
\<close>

definition eth_sendTransaction ::
  "(string \<Rightarrow> string) \<Rightarrow> (jsarg \<Rightarrow> string) \<Rightarrow> nat \<Rightarrow> node_state \<Rightarrow> jsarg list option
     \<Rightarrow> node_state \<times> effect list \<times> (js_error + rpc_result)" where
  "eth_sendTransaction H J now s params =
     (case params of
        None \<Rightarrow> (s, [], Inl TypeError)
      | Some ps \<Rightarrow>
          (case createTransaction H J now s (param ps 0) of
             Inl e \<Rightarrow> (s, [], Inl e)
           | Inr (s1, newTx) \<Rightarrow>
               (let s2 = s1 \<lparr> pendingTransactions := pendingTransactions s1 @ [newTx] \<rparr>
                in if p2pNode s2 then (s2, [], Inl TypeError)
                   else (s2, (if \<not> mining s2 then [SetTimeoutMineBlock] else []),
                         Inr (RStr (tx_hash newTx))))))"

definition eth_getTransactionReceipt :: "node_state \<Rightarrow> jsarg list option \<Rightarrow> js_error + rpc_result" where
  "eth_getTransactionReceipt s params =
     (case params of
        None \<Rightarrow> Inl TypeError
      | Some ps \<Rightarrow>
          (case find (\<lambda>t. param ps 0 = Some (AStr (tx_hash t))) (transactions s) of
             None \<Rightarrow> Inr RNull
           | Some receiptTx \<Rightarrow>
               Inr (RReceipt
                 \<lparr> r_transactionHash = tx_hash receiptTx,
                   r_transactionIndex = ''0x0'',
                   r_blockHash = or_default (tx_blockHash receiptTx) zero_hash,
                   r_blockNumber = (case tx_blockNumber receiptTx of
                                      None \<Rightarrow> HexStr 0
                                    | Some (Num 0) \<Rightarrow> HexStr 0
                                    | Some n \<Rightarrow> n),
                   r_from = tx_from receiptTx,
                   r_to = tx_to receiptTx,
                   r_cumulativeGasUsed = ''0x5208'',
                   r_gasUsed = ''0x5208'',
                   r_contractAddress = (if truthy (tx_contractAddress receiptTx)
                                        then tx_contractAddress receiptTx else None),
                   r_logs = [],
                   r_status = ''0x1'' \<rparr>)))"

definition eth_call :: "node_state \<Rightarrow> jsarg list option \<Rightarrow> js_error + rpc_result" where
  "eth_call s params =
     (case params of
        None \<Rightarrow> Inl TypeError
      | Some ps \<Rightarrow>
          (case param ps 0 of
             None \<Rightarrow> Inl TypeError
           | Some a \<Rightarrow>
               (let callParams = fields_of a
                in if \<not> truthy (p_to callParams) then Inl (Error ''To address is required'')
                   else (case map_of (contracts s) (or_default (p_to callParams) []) of
                           None \<Rightarrow> Inr (RStr ''0x'')
                         | Some contract \<Rightarrow>
                             (let d = or_default (p_data callParams) []
                              in if startsWith d ''0x70a08231'' then
                                   Inr (RStr ''0x0000000000000000000000000000000000000000000000056bc75e2d63100000'')
                                 else if startsWith d ''0x06fdde03'' then
                                   Inr (RStr ''0x0000000000000000000000000000000000000000000000000000000000000020000000000000000000000000000000000000000000000000000000000000000a4970657220546f6b656e0000000000000000000000000000000000000000000000'')
                                 else if startsWith d ''0x18160ddd'' then
                                   Inr (RStr ''0x00000000000000000000000000000000000000000000152d02c7e14af6800000'')
                                 else Inr (RStr ''0x''))))))"

definition eth_getBalance :: "node_state \<Rightarrow> jsarg list option \<Rightarrow> js_error + rpc_result" where
  "eth_getBalance s params =
     (case params of
        None \<Rightarrow> Inl TypeError
      | Some ps \<Rightarrow>
          (case map_of (accounts s) (arg_string (param ps 0)) of
             Some acc \<Rightarrow> Inr (RStr (''0x'' @ hex_of_int (balance acc)))
           | None \<Rightarrow> Inr (RStr ''0x0'')))"

definition eth_getCode :: "node_state \<Rightarrow> jsarg list option \<Rightarrow> js_error + rpc_result" where
  "eth_getCode s params =
     (case params of
        None \<Rightarrow> Inl TypeError
      | Some ps \<Rightarrow>
          (case map_of (contracts s) (arg_string (param ps 0)) of
             Some c \<Rightarrow> Inr (RStr (bytecode c))
           | None \<Rightarrow> Inr (RStr ''0x'')))"

text \<open>
  \<^verbatim>\<open>crypto\<close>'s \<^verbatim>\<open>update(rawTx)\<close> throws a TypeError unless \<^verbatim>\<open>rawTx\<close> is a string. The
  call \<^verbatim>\<open>mineBlock()\<close> is not awaited: a rejection does not reach the dispatcher, and the
  code after the call runs when \<^verbatim>\<open>mineBlock\<close> has reached its \<^verbatim>\<open>await\<close> or its end.
\<close>

definition eth_sendRawTransaction ::
  "(string \<Rightarrow> string) \<Rightarrow> nat \<Rightarrow> node_state \<Rightarrow> jsarg list option
     \<Rightarrow> node_state \<times> effect list \<times> (js_error + rpc_result)" where
  "eth_sendRawTransaction H now s params =
     (case params of
        None \<Rightarrow> (s, [], Inl TypeError)
      | Some ps \<Rightarrow>
          (case param ps 0 of
             Some (AStr rawTx) \<Rightarrow>
               (case map_of (accounts s) DEFAULT_SENDER of
                  None \<Rightarrow> (s, [], Inl TypeError)
                | Some acc \<Rightarrow>
                    (let simpleTx =
                           \<lparr> tx_hash = ''0x'' @ H rawTx,
                             tx_from = DEFAULT_SENDER,
                             tx_to = (if includes_str rawTx ''6060604'' then None
                                      else Some ''0x123f681646d4a755815f9cb19e1acc8565a0c2ac''),
                             tx_value = Amount 0,
                             tx_gas = ''0x5208'',
                             tx_gasPrice = ''0x3b9aca00'',
                             tx_input = rawTx,
                             tx_nonce = HexStr (nonce acc),
                             tx_contractAddress = None,
                             tx_blockNumber = None,
                             tx_blockHash = None \<rparr>;
                         s1 = s \<lparr> pendingTransactions := pendingTransactions s @ [simpleTx] \<rparr>;
                         s2 = s1 \<lparr> accounts :=
                                AList.update DEFAULT_SENDER (acc \<lparr> nonce := nonce acc + 1 \<rparr>) (accounts s1) \<rparr>;
                         mined = (if \<not> mining s2 then mineBlock H now s2 else (s2, NoPending));
                         s3 = fst mined;
                         fx = (case snd mined of Awaiting b \<Rightarrow> [BroadcastBlock b] | _ \<Rightarrow> []);
                         contractAddress =
                           ''0x'' @ take 40 (H (tx_hash simpleTx @ render (tx_nonce simpleTx)));
                         s4 = (if tx_to simpleTx = None
                               then s3 \<lparr> contracts :=
                                      AList.update contractAddress
                                        \<lparr> bytecode = ''0x'' @ concat (replicate 10 ''6060604052600080fd00''),
                                          storage = [], creator = tx_from simpleTx \<rparr>
                                        (contracts s3) \<rparr>
                               else s3)
                     in (s4, fx, Inr (RStr (tx_hash simpleTx)))))
           | _ \<Rightarrow> (s, [], Inl TypeError)))"

text \<open>
  The \<^verbatim>\<open>switch\<close>. The case \<^verbatim>\<open>evm_mine\<close> calls \<^verbatim>\<open>mineBlocks(1)\<close>, a name the file
  does not define: a ReferenceError. The \<^verbatim>\<open>default\<close> case returns \<^verbatim>\<open>null\<close>.
\<close>

definition processMethod ::
  "(string \<Rightarrow> string) \<Rightarrow> (jsarg \<Rightarrow> string) \<Rightarrow> nat \<Rightarrow> node_state \<Rightarrow> string \<Rightarrow> jsarg list option
     \<Rightarrow> node_state \<times> effect list \<times> (js_error + rpc_result)" where
  "processMethod H J now s method params =
     (if method = ''web3_clientVersion'' then (s, [], Inr (RStr ''IperChain/v0.1.0''))
      else if method = ''net_version'' then (s, [], Inr (RStr ''1337''))
      else if method = ''eth_chainId'' then (s, [], Inr (RStr ''0x539''))
      else if method = ''eth_blockNumber'' then
        (s, [], Inr (RStr (''0x'' @ hex_of_int (int (nextBlockNumber s) - 1))))
      else if method = ''eth_getBlockByNumber'' then (s, [], eth_getBlockByNumber s params)
      else if method = ''eth_getTransactionByHash'' then (s, [], eth_getTransactionByHash s params)
      else if method = ''eth_sendTransaction'' then eth_sendTransaction H J now s params
      else if method = ''eth_getTransactionReceipt'' then (s, [], eth_getTransactionReceipt s params)
      else if method = ''eth_call'' then (s, [], eth_call s params)
      else if method = ''eth_accounts'' then (s, [], Inr (RStrs (map fst (accounts s))))
      else if method = ''eth_estimateGas'' then (s, [], Inr (RStr ''0x5208''))
      else if method = ''eth_getBalance'' then (s, [], eth_getBalance s params)
      else if method = ''eth_getCode'' then (s, [], eth_getCode s params)
      else if method = ''eth_sendRawTransaction'' then eth_sendRawTransaction H now s params
      else if method = ''evm_mine'' then (s, [], Inl ReferenceError)
      else (s, [], Inr RNull))"

text \<open>The case labels of the \<^verbatim>\<open>switch\<close>.\<close>

definition known_methods :: "string list" where
  "known_methods =
     [''web3_clientVersion'', ''net_version'', ''eth_chainId'', ''eth_blockNumber'',
      ''eth_getBlockByNumber'', ''eth_getTransactionByHash'', ''eth_sendTransaction'',
      ''eth_getTransactionReceipt'', ''eth_call'', ''eth_accounts'', ''eth_estimateGas'',
      ''eth_getBalance'', ''eth_getCode'', ''eth_sendRawTransaction'', ''evm_mine'']"

datatype json_id = NoId | IdNum int | IdStr string

record rpc_request =
  req_id :: json_id
  req_method :: string
  req_params :: "jsarg list option"

record rpc_error =
  code :: int
  message :: string
  data :: "js_error option"

record rpc_response =
  resp_jsonrpc :: string
  resp_id :: json_id
  resp_result :: "rpc_result option"
  resp_error :: "rpc_error option"

text \<open>
  The \<^verbatim>\<open>end\<close> callback of \<^verbatim>\<open>handleRPCRequest\<close>. The body is \<open>None\<close> when
  \<^verbatim>\<open>JSON.parse(body)\<close> throws or \<^verbatim>\<open>request.id\<close> cannot be read (the outer \<^verbatim>\<open>catch\<close>),
  and the parsed request otherwise. \<open>resp_result = Some RNull\<close> is the member
  \<^verbatim>\<open>result: null\<close>; \<open>None\<close> is no such member.
\<close>

definition handleRPCRequest ::
  "(string \<Rightarrow> string) \<Rightarrow> (jsarg \<Rightarrow> string) \<Rightarrow> nat \<Rightarrow> node_state \<Rightarrow> rpc_request option
     \<Rightarrow> node_state \<times> effect list \<times> rpc_response" where
  "handleRPCRequest H J now s body =
     (case body of
        None \<Rightarrow>
          (s, [], \<lparr> resp_jsonrpc = ''2.0'', resp_id = NoId, resp_result = None,
                   resp_error = Some \<lparr> code = - 32700, message = ''Parse error'', data = None \<rparr> \<rparr>)
      | Some request \<Rightarrow>
          (case processMethod H J now s (req_method request) (req_params request) of
             (s1, fx, Inr result) \<Rightarrow>
               (s1, fx, \<lparr> resp_jsonrpc = ''2.0'', resp_id = req_id request,
                          resp_result = Some result, resp_error = None \<rparr>)
           | (s1, fx, Inl err) \<Rightarrow>
               (s1, fx, \<lparr> resp_jsonrpc = ''2.0'', resp_id = req_id request, resp_result = None,
                          resp_error = Some \<lparr> code = - 32603, message = ''Internal error'',
                                              data = Some err \<rparr> \<rparr>)))"

subsection \<open>The event loop\<close>

text \<open>
  What the single event loop can run next: an HTTP request (with the clock reading it
  sees), a gossiped transaction or block, a timer that calls \<^verbatim>\<open>mineBlock\<close> (the
  interval of \<^verbatim>\<open>startMining\<close> or the timeout of \<^verbatim>\<open>eth_sendTransaction\<close>), and the rest
  of a \<^verbatim>\<open>mineBlock\<close> whose broadcast has settled. The last event is allowed for any
  block, which only adds runs.
\<close>

datatype event =
    Rpc nat "rpc_request option"
  | GossipTransaction transaction
  | GossipBlock block
  | MineTimer nat
  | BroadcastDone block

definition step :: "(string \<Rightarrow> string) \<Rightarrow> (jsarg \<Rightarrow> string) \<Rightarrow> node_state \<Rightarrow> event \<Rightarrow> node_state" where
  "step H J s e =
     (case e of
        Rpc now body \<Rightarrow> fst (handleRPCRequest H J now s body)
      | GossipTransaction tx \<Rightarrow> on_transaction s tx
      | GossipBlock b \<Rightarrow> on_block s b
      | MineTimer now \<Rightarrow> fst (mineBlock H now s)
      | BroadcastDone b \<Rightarrow> fst (mineBlock_resume s b))"

definition run :: "(string \<Rightarrow> string) \<Rightarrow> (jsarg \<Rightarrow> string) \<Rightarrow> node_state \<Rightarrow> event list \<Rightarrow> node_state" where
  "run H J s es = foldl (step H J) s es"

subsection \<open>Notions the properties are stated with\<close>

text \<open>The transaction hashes of the blocks of the chain, in chain order.\<close>

definition included_hashes :: "node_state \<Rightarrow> string list" where
  "included_hashes s = concat (map (\<lambda>b. map tx_hash (b_transactions b)) (blocks s))"

text \<open>The index \<^verbatim>\<open>state.transactions\<close> lists the transactions of the chain.\<close>

definition tx_indexed :: "node_state \<Rightarrow> bool" where
  "tx_indexed s = (map tx_hash (transactions s) = included_hashes s)"

text \<open>Two states that differ at most in \<^verbatim>\<open>accounts\<close> and \<^verbatim>\<open>contracts\<close>.\<close>

definition same_but_ledger :: "node_state \<Rightarrow> node_state \<Rightarrow> bool" where
  "same_but_ledger s t =
     (blocks t = blocks s \<and> transactions t = transactions s \<and>
      pendingTransactions t = pendingTransactions s \<and> nextBlockNumber t = nextBlockNumber s \<and>
      mining t = mining s \<and> miningInterval t = miningInterval s \<and> p2pNode t = p2pNode s \<and>
      currentAuthorityIndex t = currentAuthorityIndex s)"

text \<open>Every account of the first state is an account of the second, with the same nonce.\<close>

definition nonces_kept :: "node_state \<Rightarrow> node_state \<Rightarrow> bool" where
  "nonces_kept s t =
     (\<forall>x acc. map_of (accounts s) x = Some acc \<longrightarrow>
        (\<exists>acc'. map_of (accounts t) x = Some acc' \<and> nonce acc' = nonce acc))"

text \<open>
  The balance under an address, 0 when there is no account; and the total the
  transactions of a list will debit from an address when \<^verbatim>\<open>mineBlock\<close> processes them.
\<close>

definition balance_of :: "node_state \<Rightarrow> string \<Rightarrow> int" where
  "balance_of s a = (case map_of (accounts s) a of None \<Rightarrow> 0 | Some acc \<Rightarrow> balance acc)"

fun outgoing :: "string \<Rightarrow> transaction list \<Rightarrow> int" where
  "outgoing a [] = 0"
| "outgoing a (tx # txs) =
     (case transfer_amount tx of
        Inr (Some v) \<Rightarrow> (if tx_from tx = a then v else 0)
      | _ \<Rightarrow> 0) + outgoing a txs"


subsection \<open>The invariant of the specification, and concrete runs\<close>

text \<open>
  The chain invariant in the specification's words: block numbers are contiguous from 0
  and every block but the first names the hash of the block before it as its parent.
\<close>

fun number_value :: "jsnum \<Rightarrow> nat" where
  "number_value (Num n) = n"
| "number_value (HexStr n) = n"

fun parent_linked :: "block list \<Rightarrow> bool" where
  "parent_linked (a # b # bs) = (b_parentHash b = b_hash a \<and> parent_linked (b # bs))"
| "parent_linked _ = True"

definition spec_chain_invariant :: "block list \<Rightarrow> bool" where
  "spec_chain_invariant bs =
     (map (\<lambda>b. number_value (b_number b)) bs = [0..<length bs] \<and> parent_linked bs)"

text \<open>
  The concrete runs below need a digest and a serialiser; these two stand in for them.
  The general theorems hold for every \<open>H\<close> and \<open>J\<close>.
\<close>

definition sample_H :: "string \<Rightarrow> string" where
  "sample_H x = x"

definition sample_J :: "jsarg \<Rightarrow> string" where
  "sample_J a = arg_string (Some a)"

definition started :: node_state where
  "started = startServer sample_H 0"

definition mk_block :: "nat \<Rightarrow> string \<Rightarrow> string \<Rightarrow> string \<Rightarrow> transaction list \<Rightarrow> block" where
  "mk_block n h parent miner txs =
     \<lparr> b_number = HexStr n, b_hash = Some h, b_parentHash = Some parent,
       b_timestamp = HexStr 5, b_transactions = txs, b_miner = Some miner,
       b_difficulty = HexStr 1, b_totalDifficulty = HexStr (n + 1),
       b_size = HexStr (1000 + length txs * 500), b_gasUsed = HexStr (length txs * 21000),
       b_gasLimit = HexStr 16777216 \<rparr>"

text \<open>Peer blocks: a first block on the genesis block, and others that name it as parent.\<close>

definition peer_block1 :: block where
  "peer_block1 = mk_block 1 ''0xb1'' ''0xgenesis-0'' ''0x123f681646d4a755815f9cb19e1acc8565a0c2ac'' []"

definition peer_block7 :: block where
  "peer_block7 = mk_block 7 ''0xb7'' ''0xgenesis-0'' ''0x123f681646d4a755815f9cb19e1acc8565a0c2ac'' []"

definition peer_fork :: block where
  "peer_fork = mk_block 2 ''0xf2'' ''0xgenesis-0'' ''0x456f681646d4a755815f9cb19e1acc8565a0c2ac'' []"

definition outsider_block :: block where
  "outsider_block = mk_block 1 ''0xe1'' ''0xgenesis-0'' ''0x0000000000000000000000000000000000000bad'' []"

text \<open>Requests.\<close>

definition unknown_request :: rpc_request where
  "unknown_request = \<lparr> req_id = IdNum 1, req_method = ''eth_foo'', req_params = Some [] \<rparr>"

definition stranger_params :: tx_params where
  "stranger_params = \<lparr> p_from = ''0x00000000000000000000000000000000000000aa'',
     p_to = Some ''0x123f681646d4a755815f9cb19e1acc8565a0c2ac'', p_value = Amount 5,
     p_gas = None, p_gasPrice = None, p_data = None \<rparr>"

definition raw_request :: rpc_request where
  "raw_request = \<lparr> req_id = IdNum 2, req_method = ''eth_sendRawTransaction'',
     req_params = Some [AStr ''0xabc''] \<rparr>"

definition gossip_tx :: transaction where
  "gossip_tx = \<lparr> tx_hash = ''0xfeed'', tx_from = ''0x456f681646d4a755815f9cb19e1acc8565a0c2ac'',
     tx_to = Some ''0x999f681646d4a755815f9cb19e1acc8565a0c2ac'', tx_value = Amount 3,
     tx_gas = ''0x5208'', tx_gasPrice = ''0x3b9aca00'', tx_input = ''0x'', tx_nonce = HexStr 0,
     tx_contractAddress = None, tx_blockNumber = None, tx_blockHash = None \<rparr>"

definition peer_block_tx :: block where
  "peer_block_tx = mk_block 1 ''0xb1t'' ''0xgenesis-0'' ''0x123f681646d4a755815f9cb19e1acc8565a0c2ac'' [gossip_tx]"

definition receipt_request :: "string \<Rightarrow> rpc_request" where
  "receipt_request h = \<lparr> req_id = IdNum 3, req_method = ''eth_getTransactionReceipt'',
     req_params = Some [AStr h] \<rparr>"

text \<open>A transfer of one wei more than the sender's genesis balance.\<close>

definition overdraft_params :: tx_params where
  "overdraft_params = \<lparr> p_from = ''0x742d35Cc6634C0532925a3b844Bc454e4438f44e'',
     p_to = Some ''0x123f681646d4a755815f9cb19e1acc8565a0c2ac'',
     p_value = Amount 1000000000000000000001,
     p_gas = None, p_gasPrice = None, p_data = None \<rparr>"

definition overdraft_request :: rpc_request where
  "overdraft_request = \<lparr> req_id = IdNum 4, req_method = ''eth_sendTransaction'',
     req_params = Some [AObj overdraft_params] \<rparr>"

definition submitted :: node_state where
  "submitted = step sample_H sample_J started (Rpc 0 (Some overdraft_request))"

text \<open>
  The transaction that request creates at clock reading 0, the same object after
  \<^verbatim>\<open>mineBlock\<close> has processed it at clock reading 1000, the block \<^verbatim>\<open>mineBlock\<close> builds,
  and the accounts it leaves.
\<close>

definition overdraft_tx :: transaction where
  "overdraft_tx = \<lparr> tx_hash = ''0x[object Object]0'',
     tx_from = ''0x742d35Cc6634C0532925a3b844Bc454e4438f44e'',
     tx_to = Some ''0x123f681646d4a755815f9cb19e1acc8565a0c2ac'',
     tx_value = Amount 1000000000000000000001,
     tx_gas = ''0x5208'', tx_gasPrice = ''0x3b9aca00'', tx_input = ''0x'', tx_nonce = HexStr 0,
     tx_contractAddress = None, tx_blockNumber = None, tx_blockHash = None \<rparr>"

definition mined_tx :: transaction where
  "mined_tx = overdraft_tx \<lparr> tx_blockNumber := Some (HexStr 1),
     tx_blockHash := Some ''0xblock-1-1'' \<rparr>"

definition mined_block :: block where
  "mined_block = \<lparr> b_number = HexStr 1, b_hash = Some ''0xblock-1-1'',
     b_parentHash = Some ''0xgenesis-0'', b_timestamp = HexStr 1, b_transactions = [mined_tx],
     b_miner = Some ''0x742d35Cc6634C0532925a3b844Bc454e4438f44e'', b_difficulty = HexStr 1,
     b_totalDifficulty = HexStr 2, b_size = HexStr 1500, b_gasUsed = HexStr 21000,
     b_gasLimit = HexStr 16777216 \<rparr>"

definition overdrawn_accounts :: "(string \<times> account) list" where
  "overdrawn_accounts =
     [(''0x742d35Cc6634C0532925a3b844Bc454e4438f44e'', \<lparr> balance = - 1, nonce = 1 \<rparr>),
      (''0x123f681646d4a755815f9cb19e1acc8565a0c2ac'', \<lparr> balance = 2000000000000000000001, nonce = 0 \<rparr>),
      (''0x456f681646d4a755815f9cb19e1acc8565a0c2ac'', genesis_account),
      (''0x999f681646d4a755815f9cb19e1acc8565a0c2ac'', genesis_account)]"

text \<open>A started node with one gossiped transfer of 3 wei in the pool.\<close>

definition funded :: node_state where
  "funded = on_transaction started gossip_tx"

text \<open>
  The run that continues from there: the node after the submission and the timer, after
  the broadcast has settled and the block is appended, and after a gossiped transaction
  has refilled the pool.
\<close>

definition awaiting :: node_state where
  "awaiting = run sample_H sample_J started [Rpc 0 (Some overdraft_request), MineTimer 1000]"

definition extended :: node_state where
  "extended = step sample_H sample_J awaiting (BroadcastDone mined_block)"

definition refilled :: node_state where
  "refilled = step sample_H sample_J extended (GossipTransaction gossip_tx)"

text \<open>
  A transfer whose value \<^verbatim>\<open>BigInt\<close> cannot read (such as \<^verbatim>\<open>'abc'\<close>), the transaction the
  node creates for it at clock reading 0, and the started node after that submission.
\<close>

definition malformed_params :: tx_params where
  "malformed_params = \<lparr> p_from = ''0x742d35Cc6634C0532925a3b844Bc454e4438f44e'',
     p_to = Some ''0x123f681646d4a755815f9cb19e1acc8565a0c2ac'', p_value = Unparsable,
     p_gas = None, p_gasPrice = None, p_data = None \<rparr>"

definition malformed_request :: rpc_request where
  "malformed_request = \<lparr> req_id = IdNum 5, req_method = ''eth_sendTransaction'',
     req_params = Some [AObj malformed_params] \<rparr>"

definition malformed_tx :: transaction where
  "malformed_tx = \<lparr> tx_hash = ''0x[object Object]0'',
     tx_from = ''0x742d35Cc6634C0532925a3b844Bc454e4438f44e'',
     tx_to = Some ''0x123f681646d4a755815f9cb19e1acc8565a0c2ac'',
     tx_value = Unparsable,
     tx_gas = ''0x5208'', tx_gasPrice = ''0x3b9aca00'', tx_input = ''0x'', tx_nonce = HexStr 0,
     tx_contractAddress = None, tx_blockNumber = None, tx_blockHash = None \<rparr>"

definition stalled :: node_state where
  "stalled = step sample_H sample_J started (Rpc 0 (Some malformed_request))"


section \<open>Properties\<close>

subsection \<open>Evaluation of the concrete runs\<close>

lemma toString10_0: "toString10 0 = ''0''"
  by (simp add: toString10.simps hex_digit_def)

lemma started_blocks:
  "blocks started =
     [\<lparr> b_number = Num 0, b_hash = Some ''0xgenesis-0'', b_parentHash = Some zero_hash,
        b_timestamp = Num 0, b_transactions = [],
        b_miner = Some (''0x'' @ replicate 40 (CHR ''0'')),
        b_difficulty = HexStr 1, b_totalDifficulty = HexStr 1, b_size = HexStr 0,
        b_gasUsed = HexStr 0, b_gasLimit = HexStr 16777216 \<rparr>]"
  by (simp add: started_def startServer_def startMining_def initP2PNode_def
      initGenesisBlock_def state0_def toString10_0 sample_H_def)

lemma started_fields:
  "transactions started = []" "pendingTransactions started = []" "contracts started = []"
  "nextBlockNumber started = 1" "mining started" "p2pNode started"
  "currentAuthorityIndex started = 0"
  by (simp_all add: started_def startServer_def startMining_def initP2PNode_def
      initGenesisBlock_def state0_def)

subsection \<open>Validation and the chain mutator\<close>

lemma validateBlock_iff:
  "validateBlock s b =
     (truthy (b_hash b) \<and> truthy (b_parentHash b) \<and>
      (b_parentHash b \<in> b_hash ` set (blocks s) \<or> b_number b = Num 0) \<and>
      (\<exists>m. b_miner b = Some m \<and> m \<in> set AUTHORITIES))"
  by (auto simp: validateBlock_def find_None_iff image_iff split: option.splits) metis+

lemma addBlock_known: "b_hash b \<in> b_hash ` set (blocks s) \<Longrightarrow> addBlock s b = s"
  by (auto simp: addBlock_def find_None_iff)

lemma addBlock_new:
  "b_hash b \<notin> b_hash ` set (blocks s) \<Longrightarrow> blocks (addBlock s b) = blocks s @ [b]"
  by (auto simp: addBlock_def find_None_iff image_iff)

lemma state_changed_if_appended: "blocks t = blocks s @ [b] \<Longrightarrow> t \<noteq> s"
  by auto

lemma mk_block_fields:
  "b_number (mk_block n h p m txs) = HexStr n" "b_hash (mk_block n h p m txs) = Some h"
  "b_parentHash (mk_block n h p m txs) = Some p" "b_miner (mk_block n h p m txs) = Some m"
  "b_transactions (mk_block n h p m txs) = txs"
  by (simp_all add: mk_block_def)

lemma started_hashes: "b_hash ` set (blocks started) = {Some ''0xgenesis-0''}"
  by (simp add: started_blocks)

lemma sample_blocks:
  "b_hash peer_block1 = Some ''0xb1''" "b_parentHash peer_block1 = Some ''0xgenesis-0''"
  "b_number peer_block1 = HexStr 1"
  "b_miner peer_block1 = Some ''0x123f681646d4a755815f9cb19e1acc8565a0c2ac''"
  "b_hash peer_block7 = Some ''0xb7''" "b_parentHash peer_block7 = Some ''0xgenesis-0''"
  "b_number peer_block7 = HexStr 7"
  "b_miner peer_block7 = Some ''0x123f681646d4a755815f9cb19e1acc8565a0c2ac''"
  "b_hash peer_fork = Some ''0xf2''" "b_parentHash peer_fork = Some ''0xgenesis-0''"
  "b_number peer_fork = HexStr 2"
  "b_miner peer_fork = Some ''0x456f681646d4a755815f9cb19e1acc8565a0c2ac''"
  "b_hash outsider_block = Some ''0xe1''" "b_parentHash outsider_block = Some ''0xgenesis-0''"
  "b_number outsider_block = HexStr 1"
  "b_miner outsider_block = Some ''0x0000000000000000000000000000000000000bad''"
  by (simp_all add: peer_block1_def peer_block7_def peer_fork_def outsider_block_def
      mk_block_fields)

lemma validate_peer_block1: "validateBlock started peer_block1"
  by (simp add: validateBlock_iff started_hashes sample_blocks truthy_def
      AUTHORITIES_def)

lemma validate_peer_block7: "validateBlock started peer_block7"
  by (simp add: validateBlock_iff started_hashes sample_blocks truthy_def
      AUTHORITIES_def)

lemma reject_outsider_block: "\<not> validateBlock started outsider_block"
  by (simp add: validateBlock_iff sample_blocks AUTHORITIES_def)

lemma blocks_after_peer_block1:
  "blocks (on_block started peer_block1) = blocks started @ [peer_block1]"
  unfolding on_block_def using validate_peer_block1
  by (simp add: addBlock_new started_hashes sample_blocks)

lemma blocks_after_peer_block7:
  "blocks (on_block started peer_block7) = blocks started @ [peer_block7]"
  unfolding on_block_def using validate_peer_block7
  by (simp add: addBlock_new started_hashes sample_blocks)

lemma hashes_after_peer_block1:
  "b_hash ` set (blocks (on_block started peer_block1)) = {Some ''0xgenesis-0'', Some ''0xb1''}"
  by (auto simp: blocks_after_peer_block1 started_hashes sample_blocks)

lemma hashes_after_peer_block7:
  "b_hash ` set (blocks (on_block started peer_block7)) = {Some ''0xgenesis-0'', Some ''0xb7''}"
  by (auto simp: blocks_after_peer_block7 started_hashes sample_blocks)

lemma validate_fork_after_block1: "validateBlock (on_block started peer_block1) peer_fork"
  by (simp add: validateBlock_iff hashes_after_peer_block1 sample_blocks
      truthy_def AUTHORITIES_def)

lemma validate_fork_after_block7: "validateBlock (on_block started peer_block7) peer_fork"
  by (simp add: validateBlock_iff hashes_after_peer_block7 sample_blocks
      truthy_def AUTHORITIES_def)

lemma blocks_after_fork1:
  "blocks (on_block (on_block started peer_block1) peer_fork) =
     blocks started @ [peer_block1, peer_fork]"
proof -
  have "b_hash peer_fork \<notin> b_hash ` set (blocks (on_block started peer_block1))"
    by (simp add: hashes_after_peer_block1 sample_blocks)
  then have "blocks (addBlock (on_block started peer_block1) peer_fork) =
      blocks (on_block started peer_block1) @ [peer_fork]"
    by (rule addBlock_new)
  then show ?thesis
    using validate_fork_after_block1
    by (simp add: on_block_def [of "on_block started peer_block1"] blocks_after_peer_block1)
qed

lemma blocks_after_fork7:
  "blocks (on_block (on_block started peer_block7) peer_fork) =
     blocks started @ [peer_block7, peer_fork]"
proof -
  have "b_hash peer_fork \<notin> b_hash ` set (blocks (on_block started peer_block7))"
    by (simp add: hashes_after_peer_block7 sample_blocks)
  then have "blocks (addBlock (on_block started peer_block7) peer_fork) =
      blocks (on_block started peer_block7) @ [peer_fork]"
    by (rule addBlock_new)
  then show ?thesis
    using validate_fork_after_block7
    by (simp add: on_block_def [of "on_block started peer_block7"] blocks_after_peer_block7)
qed

subsection \<open>The dispatcher\<close>

lemma processMethod_unknown:
  "method \<notin> set known_methods \<Longrightarrow> processMethod H J now s method params = (s, [], Inr RNull)"
  by (simp add: known_methods_def processMethod_def)

lemma createTransaction_no_account:
  "map_of (accounts s) (p_from (fields_of a)) = None \<Longrightarrow>
     createTransaction H J now s (Some a) = Inl TypeError"
  by (simp add: createTransaction_def)

lemma started_accounts:
  "accounts started =
     [(''0x742d35Cc6634C0532925a3b844Bc454e4438f44e'', genesis_account),
      (''0x123f681646d4a755815f9cb19e1acc8565a0c2ac'', genesis_account),
      (''0x456f681646d4a755815f9cb19e1acc8565a0c2ac'', genesis_account),
      (''0x999f681646d4a755815f9cb19e1acc8565a0c2ac'', genesis_account)]"
  by (simp add: started_def startServer_def startMining_def initP2PNode_def
      initGenesisBlock_def state0_def)

lemma raw_once:
  "mining s \<Longrightarrow> map_of (accounts s) DEFAULT_SENDER = Some acc \<Longrightarrow>
   map tx_hash (pendingTransactions (fst (eth_sendRawTransaction H now s (Some [AStr raw])))) =
     map tx_hash (pendingTransactions s) @ [''0x'' @ H raw] \<and>
   mining (fst (eth_sendRawTransaction H now s (Some [AStr raw]))) \<and>
   map_of (accounts (fst (eth_sendRawTransaction H now s (Some [AStr raw])))) DEFAULT_SENDER =
     Some (acc \<lparr> nonce := nonce acc + 1 \<rparr>)"
  by (simp add: eth_sendRawTransaction_def param_def Let_def update_conv')

lemma step_raw:
  "step H J s (Rpc now (Some \<lparr> req_id = i, req_method = ''eth_sendRawTransaction'', req_params = ps \<rparr>)) =
     fst (eth_sendRawTransaction H now s ps)"
  by (simp add: step_def handleRPCRequest_def processMethod_def split: prod.splits sum.splits)

lemma on_transaction_known:
  "tx_hash tx \<in> tx_hash ` set (pendingTransactions s) \<Longrightarrow> on_transaction s tx = s"
  by (auto simp: on_transaction_def find_None_iff)

subsection \<open>Block production keeps the rest of the state; the transaction index\<close>

lemma same_but_ledger_refl: "same_but_ledger s s"
  by (simp add: same_but_ledger_def)

lemma same_but_ledger_trans:
  "same_but_ledger s t \<Longrightarrow> same_but_ledger t u \<Longrightarrow> same_but_ledger s u"
  by (simp add: same_but_ledger_def)

lemma debit_frame: "same_but_ledger s (debit s a v)"
  by (simp add: same_but_ledger_def debit_def split: option.splits)

lemma credit_frame: "same_but_ledger s (credit s a v)"
  by (simp add: same_but_ledger_def credit_def split: option.splits)

lemma processTransaction_frame:
  assumes "processTransaction H n t s tx = Inr (s', tx')"
  shows "same_but_ledger s s' \<and> tx_hash tx' = tx_hash tx"
proof -
  have dc: "same_but_ledger s (credit (debit s a v) r v)" for a v r
    using debit_frame credit_frame same_but_ledger_trans by blast
  from assms show ?thesis
    using dc
    by (auto simp: processTransaction_def Let_def same_but_ledger_def
        split: sum.splits option.splits if_splits)
qed

lemma processTransactions_frame:
  "processTransactions H n t s txs = (s', txs', r) \<Longrightarrow>
     same_but_ledger s s' \<and> map tx_hash txs' = map tx_hash txs"
proof (induction txs arbitrary: s s' txs' r)
  case Nil
  then show ?case by (simp add: same_but_ledger_refl)
next
  case (Cons tx txs)
  show ?case
  proof (cases "processTransaction H n t s tx")
    case (Inl e)
    with Cons.prems show ?thesis by (auto simp: same_but_ledger_refl)
  next
    case (Inr p)
    obtain s1 tx1 where p: "p = (s1, tx1)" by (cases p)
    obtain s2 txs1 r1 where rec: "processTransactions H n t s1 txs = (s2, txs1, r1)"
      by (cases "processTransactions H n t s1 txs") auto
    from Cons.prems Inr p rec have eq: "s' = s2" "txs' = tx1 # txs1" "r = r1" by auto
    from processTransaction_frame [OF Inr [unfolded p]]
    have f1: "same_but_ledger s s1" "tx_hash tx1 = tx_hash tx" by auto
    from Cons.IH [OF rec] have f2: "same_but_ledger s1 s2" "map tx_hash txs1 = map tx_hash txs"
      by auto
    from f1 f2 eq show ?thesis using same_but_ledger_trans by auto
  qed
qed

lemma tx_indexed_addBlock: "tx_indexed s \<Longrightarrow> tx_indexed (addBlock s b)"
  by (simp add: tx_indexed_def included_hashes_def addBlock_def)

lemma tx_indexed_cong:
  "blocks t = blocks s \<Longrightarrow> transactions t = transactions s \<Longrightarrow> tx_indexed t = tx_indexed s"
  by (simp add: tx_indexed_def included_hashes_def)

lemma tx_indexed_mineBlock: "tx_indexed s \<Longrightarrow> tx_indexed (fst (mineBlock H now s))"
proof -
  assume inv: "tx_indexed s"
  let ?s1 = "s \<lparr> currentAuthorityIndex := snd (selectAuthority (currentAuthorityIndex s)) \<rparr>"
  have inv1: "tx_indexed ?s1" using inv by (simp add: tx_indexed_def included_hashes_def)
  obtain s2 txs r where pt:
    "processTransactions H (nextBlockNumber s) (now div 1000) ?s1 (pendingTransactions s) = (s2, txs, r)"
    by (cases "processTransactions H (nextBlockNumber s) (now div 1000) ?s1 (pendingTransactions s)") auto
  from processTransactions_frame [OF pt] have "same_but_ledger ?s1 s2" by simp
  then have inv2: "tx_indexed (s2 \<lparr> pendingTransactions := txs \<rparr>)"
    using inv1 by (simp add: tx_indexed_def included_hashes_def same_but_ledger_def)
  show ?thesis
    using inv inv1 inv2 pt tx_indexed_addBlock [OF inv2]
    by (auto simp: mineBlock_def Let_def split: option.splits)
qed

lemma tx_indexed_on_block: "tx_indexed s \<Longrightarrow> tx_indexed (on_block s b)"
  by (simp add: on_block_def tx_indexed_addBlock)

lemma tx_indexed_on_transaction: "tx_indexed s \<Longrightarrow> tx_indexed (on_transaction s tx)"
  by (simp add: on_transaction_def tx_indexed_def included_hashes_def)

lemma tx_indexed_sendTransaction:
  "tx_indexed s \<Longrightarrow> tx_indexed (fst (eth_sendTransaction H J now s params))"
  by (auto simp: eth_sendTransaction_def createTransaction_def Let_def tx_indexed_def
      included_hashes_def split: option.splits sum.splits)

lemma tx_indexed_sendRaw:
  assumes "tx_indexed s"
  shows "tx_indexed (fst (eth_sendRawTransaction H now s params))"
proof -
  have upd: "tx_indexed t \<Longrightarrow> tx_indexed (t \<lparr> contracts := c \<rparr>)" for t c
    by (simp add: tx_indexed_def included_hashes_def)
  have pre: "tx_indexed (s \<lparr> pendingTransactions := p, accounts := a \<rparr>)" for p a
    using assms by (simp add: tx_indexed_def included_hashes_def)
  show ?thesis
    using assms upd pre tx_indexed_mineBlock
    by (auto simp: eth_sendRawTransaction_def Let_def split: option.splits jsarg.splits)
qed

lemma tx_indexed_processMethod:
  "tx_indexed s \<Longrightarrow> tx_indexed (fst (processMethod H J now s method params))"
  by (simp add: processMethod_def tx_indexed_sendTransaction tx_indexed_sendRaw)

lemma fst_handleRPCRequest:
  "fst (handleRPCRequest H J now s (Some request)) =
     fst (processMethod H J now s (req_method request) (req_params request))"
  by (simp add: handleRPCRequest_def split: prod.splits sum.splits)

lemma tx_indexed_step: "tx_indexed s \<Longrightarrow> tx_indexed (step H J s e)"
proof (cases e)
  case (Rpc now body)
  assume "tx_indexed s"
  then show ?thesis using Rpc
  proof (cases body)
    case None
    with \<open>tx_indexed s\<close> Rpc show ?thesis by (simp add: step_def handleRPCRequest_def)
  next
    case (Some request)
    with \<open>tx_indexed s\<close> Rpc show ?thesis
      by (simp add: step_def fst_handleRPCRequest tx_indexed_processMethod)
  qed
qed (simp_all add: step_def tx_indexed_on_transaction tx_indexed_on_block tx_indexed_mineBlock
    mineBlock_resume_def tx_indexed_addBlock)

lemma tx_indexed_run: "tx_indexed s \<Longrightarrow> tx_indexed (run H J s es)"
  unfolding run_def by (induction es arbitrary: s) (simp_all add: tx_indexed_step)

lemma tx_indexed_startServer: "tx_indexed (startServer H t)"
  by (simp add: tx_indexed_def included_hashes_def startServer_def startMining_def
      initP2PNode_def initGenesisBlock_def state0_def Let_def)

subsection \<open>Receipts\<close>

lemma find_hash_Some:
  "h \<in> tx_hash ` set txs \<Longrightarrow> \<exists>tx. find (\<lambda>t. h = tx_hash t) txs = Some tx \<and> tx_hash tx = h"
  by (induction txs) auto

lemma receipt_found:
  assumes "h \<in> tx_hash ` set (transactions s)"
  shows "\<exists>r. eth_getTransactionReceipt s (Some (AStr h # rest)) = Inr (RReceipt r) \<and>
            r_transactionHash r = h \<and> r_status r = ''0x1''"
proof -
  from find_hash_Some [OF assms] obtain tx
    where "find (\<lambda>t. h = tx_hash t) (transactions s) = Some tx" "tx_hash tx = h" by blast
  then show ?thesis by (simp add: eth_getTransactionReceipt_def param_def)
qed

lemma receipt_not_found:
  "h \<notin> tx_hash ` set (transactions s) \<Longrightarrow>
     eth_getTransactionReceipt s (Some (AStr h # rest)) = Inr RNull"
proof -
  assume "h \<notin> tx_hash ` set (transactions s)"
  then have "find (\<lambda>t. h = tx_hash t) (transactions s) = None"
    by (auto simp: find_None_iff)
  then show ?thesis by (simp add: eth_getTransactionReceipt_def param_def)
qed

lemma handle_receipt:
  "handleRPCRequest H J now s
     (Some \<lparr> req_id = i, req_method = ''eth_getTransactionReceipt'', req_params = ps \<rparr>) =
   (case eth_getTransactionReceipt s ps of
      Inr result \<Rightarrow> (s, [], \<lparr> resp_jsonrpc = ''2.0'', resp_id = i, resp_result = Some result,
                               resp_error = None \<rparr>)
    | Inl err \<Rightarrow> (s, [], \<lparr> resp_jsonrpc = ''2.0'', resp_id = i, resp_result = None,
                            resp_error = Some \<lparr> code = - 32603, message = ''Internal error'',
                                                data = Some err \<rparr> \<rparr>))"
  by (simp add: handleRPCRequest_def processMethod_def split: sum.splits)

lemma sample_block_tx:
  "b_hash peer_block_tx = Some ''0xb1t''" "b_parentHash peer_block_tx = Some ''0xgenesis-0''"
  "b_number peer_block_tx = HexStr 1"
  "b_miner peer_block_tx = Some ''0x123f681646d4a755815f9cb19e1acc8565a0c2ac''"
  "b_transactions peer_block_tx = [gossip_tx]"
  by (simp_all add: peer_block_tx_def mk_block_fields)

lemma validate_peer_block_tx: "validateBlock started peer_block_tx"
  by (simp add: validateBlock_iff started_hashes sample_block_tx truthy_def AUTHORITIES_def)

lemma blocks_after_peer_block_tx:
  "blocks (on_block started peer_block_tx) = blocks started @ [peer_block_tx]"
  unfolding on_block_def using validate_peer_block_tx
  by (simp add: addBlock_new started_hashes sample_block_tx)

lemma included_after_peer_block_tx:
  "included_hashes (run sample_H sample_J (startServer sample_H 0) [GossipBlock peer_block_tx]) =
     [''0xfeed'']"
  by (simp add: run_def step_def started_def [symmetric] included_hashes_def
      blocks_after_peer_block_tx started_blocks sample_block_tx gossip_tx_def)

subsection \<open>Nonces\<close>

lemma nonces_kept_refl: "nonces_kept s s"
  by (simp add: nonces_kept_def)

lemma nonces_kept_trans: "nonces_kept s t \<Longrightarrow> nonces_kept t u \<Longrightarrow> nonces_kept s u"
  unfolding nonces_kept_def by (metis (no_types, lifting))

lemma nonces_kept_accounts: "accounts t = accounts s \<Longrightarrow> nonces_kept s t"
  by (simp add: nonces_kept_def)

lemma debit_nonces: "nonces_kept s (debit s a v)"
  by (auto simp: nonces_kept_def debit_def update_conv' split: option.splits)

lemma credit_nonces: "nonces_kept s (credit s a v)"
  by (auto simp: nonces_kept_def credit_def update_conv' split: option.splits)

lemma processTransaction_nonces:
  assumes "processTransaction H n t s tx = Inr (s', tx')"
  shows "nonces_kept s s'"
proof -
  have dc: "nonces_kept s (credit (debit s a v) r v)" for a v r
    using debit_nonces credit_nonces nonces_kept_trans by blast
  have c: "nonces_kept s u \<Longrightarrow> nonces_kept s (u \<lparr> contracts := k \<rparr>)" for u k
    by (simp add: nonces_kept_def)
  from assms show ?thesis
    using dc c nonces_kept_refl
    by (auto simp: processTransaction_def Let_def split: sum.splits option.splits if_splits)
qed

lemma processTransactions_nonces:
  "processTransactions H n t s txs = (s', txs', r) \<Longrightarrow> nonces_kept s s'"
proof (induction txs arbitrary: s s' txs' r)
  case Nil
  then show ?case by (simp add: nonces_kept_refl)
next
  case (Cons tx txs)
  show ?case
  proof (cases "processTransaction H n t s tx")
    case (Inl e)
    with Cons.prems show ?thesis by (auto simp: nonces_kept_refl)
  next
    case (Inr p)
    obtain s1 tx1 where p: "p = (s1, tx1)" by (cases p)
    obtain s2 txs1 r1 where rec: "processTransactions H n t s1 txs = (s2, txs1, r1)"
      by (cases "processTransactions H n t s1 txs") auto
    from Cons.prems Inr p rec have eq: "s' = s2" by auto
    from processTransaction_nonces [OF Inr [unfolded p]] Cons.IH [OF rec] eq
    show ?thesis using nonces_kept_trans by blast
  qed
qed

lemma accounts_addBlock: "accounts (addBlock s b) = accounts s"
  by (simp add: addBlock_def)

lemma mineBlock_nonces: "nonces_kept s (fst (mineBlock H now s))"
proof -
  let ?s1 = "s \<lparr> currentAuthorityIndex := snd (selectAuthority (currentAuthorityIndex s)) \<rparr>"
  have k1: "nonces_kept s ?s1" by (simp add: nonces_kept_def)
  obtain s2 txs r where pt:
    "processTransactions H (nextBlockNumber s) (now div 1000) ?s1 (pendingTransactions s) = (s2, txs, r)"
    by (cases "processTransactions H (nextBlockNumber s) (now div 1000) ?s1 (pendingTransactions s)") auto
  from processTransactions_nonces [OF pt] k1 have k2: "nonces_kept s s2"
    using nonces_kept_trans by blast
  then have k3: "nonces_kept s (s2 \<lparr> pendingTransactions := txs \<rparr>)"
    by (simp add: nonces_kept_def)
  then have k4: "nonces_kept s (addBlock (s2 \<lparr> pendingTransactions := txs \<rparr>) b)" for b
    by (simp add: nonces_kept_def accounts_addBlock)
  show ?thesis
    using k1 k3 k4 pt nonces_kept_refl
    by (auto simp: mineBlock_def Let_def split: option.splits)
qed

lemma createTransaction_nonce:
  assumes "createTransaction H J now s (Some a) = Inr (s', tx)"
  shows "\<exists>acc. map_of (accounts s) (p_from (fields_of a)) = Some acc \<and>
           map_of (accounts s') (p_from (fields_of a)) = Some (acc \<lparr> nonce := nonce acc + 1 \<rparr>) \<and>
           tx_from tx = p_from (fields_of a) \<and> tx_nonce tx = HexStr (nonce acc) \<and>
           (\<forall>x. x \<noteq> p_from (fields_of a) \<longrightarrow> map_of (accounts s') x = map_of (accounts s) x)"
  using assms
  by (auto simp: createTransaction_def Let_def update_conv' split: option.splits)

lemma sendRaw_nonce:
  assumes "map_of (accounts s) DEFAULT_SENDER = Some acc"
  shows "\<exists>acc'. map_of (accounts (fst (eth_sendRawTransaction H now s (Some (AStr raw # rest)))))
             DEFAULT_SENDER = Some acc' \<and> nonce acc' = nonce acc + 1"
proof -
  define tx where "tx = \<lparr> tx_hash = ''0x'' @ H raw,
                             tx_from = DEFAULT_SENDER,
                             tx_to = (if includes_str raw ''6060604'' then None
                                      else Some ''0x123f681646d4a755815f9cb19e1acc8565a0c2ac''),
                             tx_value = Amount 0,
                             tx_gas = ''0x5208'',
                             tx_gasPrice = ''0x3b9aca00'',
                             tx_input = raw,
                             tx_nonce = HexStr (nonce acc),
                             tx_contractAddress = None,
                             tx_blockNumber = None,
                             tx_blockHash = None \<rparr>"
  define s2 where "s2 = s \<lparr> pendingTransactions := pendingTransactions s @ [tx],
     accounts := AList.update DEFAULT_SENDER (acc \<lparr> nonce := nonce acc + 1 \<rparr>) (accounts s) \<rparr>"
  have a2: "map_of (accounts s2) DEFAULT_SENDER = Some (acc \<lparr> nonce := nonce acc + 1 \<rparr>)"
    by (simp add: s2_def update_conv')
  define s3 where "s3 = (if \<not> mining s2 then fst (mineBlock H now s2) else s2)"
  have "nonces_kept s2 s3"
    by (simp add: s3_def mineBlock_nonces nonces_kept_refl)
  with a2 have "\<exists>acc'. map_of (accounts s3) DEFAULT_SENDER = Some acc' \<and>
      nonce acc' = nonce (acc \<lparr> nonce := nonce acc + 1 \<rparr>)"
    unfolding nonces_kept_def by blast
  then obtain acc' where a3: "map_of (accounts s3) DEFAULT_SENDER = Some acc'"
    "nonce acc' = nonce acc + 1"
    by auto
  have "accounts (fst (eth_sendRawTransaction H now s (Some (AStr raw # rest)))) = accounts s3"
    using assms
    by (simp add: eth_sendRawTransaction_def param_def Let_def s3_def s2_def tx_def)
  with a3 show ?thesis by simp
qed

subsection \<open>A submission and the block that includes it\<close>

lemma submitted_eq:
  "submitted = started \<lparr> pendingTransactions := [overdraft_tx],
     accounts := [(''0x742d35Cc6634C0532925a3b844Bc454e4438f44e'', \<lparr> balance = 1000000000000000000000, nonce = 1 \<rparr>),
      (''0x123f681646d4a755815f9cb19e1acc8565a0c2ac'', genesis_account),
      (''0x456f681646d4a755815f9cb19e1acc8565a0c2ac'', genesis_account),
      (''0x999f681646d4a755815f9cb19e1acc8565a0c2ac'', genesis_account)] \<rparr>"
  by (simp add: submitted_def step_def handleRPCRequest_def processMethod_def
      overdraft_request_def eth_sendTransaction_def param_def createTransaction_def
      overdraft_params_def started_accounts started_fields Let_def sample_H_def sample_J_def
      toString10_0 or_default_def truthy_def overdraft_tx_def genesis_account_def)

lemma toString10_1: "toString10 (Suc 0) = ''1''"
  by (simp add: toString10.simps hex_digit_def)

lemma process_overdraft:
  "processTransactions sample_H (Suc 0) (Suc 0)
       (submitted \<lparr> currentAuthorityIndex := Suc 0 \<rparr>) [overdraft_tx] =
     (submitted \<lparr> currentAuthorityIndex := Suc 0, accounts := overdrawn_accounts \<rparr>,
      [mined_tx], None)"
  by (simp add: submitted_eq processTransaction_def transfer_amount_def truthy_def
      overdraft_tx_def debit_def credit_def Let_def genesis_account_def overdrawn_accounts_def
      mined_tx_def block_seed_def toString10_1 sample_H_def)

lemma mine_submitted:
  "mineBlock sample_H 1000 submitted =
     (submitted \<lparr> currentAuthorityIndex := 1, accounts := overdrawn_accounts,
                  pendingTransactions := [mined_tx] \<rparr>, Awaiting mined_block)"
proof -
  have sel: "selectAuthority 0 = (Some ''0x742d35Cc6634C0532925a3b844Bc454e4438f44e'', 1)"
    by (simp add: selectAuthority_def AUTHORITIES_def)
  have f: "pendingTransactions submitted = [overdraft_tx]" "currentAuthorityIndex submitted = 0"
    "nextBlockNumber submitted = 1" "blocks submitted = blocks started" "p2pNode submitted"
    by (simp_all add: submitted_eq started_fields)
  show ?thesis
    by (simp add: mineBlock_def f sel Let_def process_overdraft started_blocks mined_block_def
        block_seed_def toString10_1 sample_H_def del: processTransactions.simps)
qed

subsection \<open>Balances\<close>

lemma outgoing_nonneg: "0 \<le> outgoing a txs"
  by (induction txs) (auto simp: transfer_amount_def split: jsamount.splits sum.splits option.splits)

lemma balance_of_debit:
  "balance_of (debit s f v) a =
     balance_of s a - (if a = f \<and> map_of (accounts s) f \<noteq> None then v else 0)"
  by (auto simp: balance_of_def debit_def update_conv' split: option.splits)

lemma balance_of_credit:
  "balance_of (credit s r v) a = balance_of s a + (if a = r then v else 0)"
  by (auto simp: balance_of_def credit_def update_conv' split: option.splits)

lemma balance_of_contracts: "balance_of (s \<lparr> contracts := k \<rparr>) a = balance_of s a"
  by (simp add: balance_of_def)

lemma transfer_amount_positive: "transfer_amount tx = Inr (Some v) \<Longrightarrow> 0 < v \<and> tx_to tx \<noteq> None"
  by (auto simp: transfer_amount_def truthy_def split: jsamount.splits if_splits option.splits)

lemma processTransaction_funded:
  assumes step: "processTransaction H n t s tx = Inr (s', tx')"
    and funded: "\<forall>a. outgoing a (tx # txs) \<le> balance_of s a"
  shows "\<forall>a. outgoing a txs \<le> balance_of s' a"
proof
  fix a
  from step obtain amt where amt: "transfer_amount tx = Inr amt"
    by (auto simp: processTransaction_def split: sum.splits)
  show "outgoing a txs \<le> balance_of s' a"
  proof (cases amt)
    case None
    with step amt have "balance_of s' a = balance_of s a"
      by (auto simp: processTransaction_def Let_def balance_of_contracts)
    moreover from funded amt None have "outgoing a txs \<le> balance_of s a"
      by (simp add: allE [of _ a])
    ultimately show ?thesis by simp
  next
    case (Some v)
    from transfer_amount_positive [OF amt [unfolded Some]] obtain r
      where v: "0 < v" and r: "tx_to tx = Some r" by auto
    from step amt Some r have "balance_of s' a = balance_of (credit (debit s (tx_from tx) v) r v) a"
      by (auto simp: processTransaction_def Let_def balance_of_contracts)
    then have "balance_of s' a \<ge> balance_of s a - (if a = tx_from tx then v else 0)"
      using v by (simp add: balance_of_credit balance_of_debit)
    moreover from funded amt Some
    have "(if tx_from tx = a then v else 0) + outgoing a txs \<le> balance_of s a"
      by (simp add: allE [of _ a])
    ultimately show ?thesis by (simp split: if_splits)
  qed
qed

lemma processTransactions_funded:
  "\<forall>a. outgoing a txs \<le> balance_of s a \<Longrightarrow>
   processTransactions H n t s txs = (s', txs', r) \<Longrightarrow> \<forall>a. 0 \<le> balance_of s' a"
proof (induction txs arbitrary: s s' txs' r)
  case Nil
  then show ?case by simp
next
  case (Cons tx txs)
  show ?case
  proof (cases "processTransaction H n t s tx")
    case (Inl e)
    with Cons.prems have "s' = s" by simp
    moreover have "\<forall>a. 0 \<le> balance_of s a"
      using Cons.prems(1) outgoing_nonneg order_trans by blast
    ultimately show ?thesis by simp
  next
    case (Inr p)
    obtain s1 tx1 where p: "p = (s1, tx1)" by (cases p)
    obtain s2 txs1 r1 where rec: "processTransactions H n t s1 txs = (s2, txs1, r1)"
      by (cases "processTransactions H n t s1 txs") auto
    from Cons.prems Inr p rec have eq: "s' = s2" by auto
    from processTransaction_funded [OF Inr [unfolded p] Cons.prems(1)]
    have "\<forall>a. outgoing a txs \<le> balance_of s1 a" .
    from Cons.IH [OF this rec] eq show ?thesis by simp
  qed
qed

lemma mineBlock_funded:
  assumes funded: "\<forall>a. outgoing a (pendingTransactions s) \<le> balance_of s a"
  shows "\<forall>a. 0 \<le> balance_of (fst (mineBlock H now s)) a"
proof -
  let ?s1 = "s \<lparr> currentAuthorityIndex := snd (selectAuthority (currentAuthorityIndex s)) \<rparr>"
  have b1: "balance_of ?s1 a = balance_of s a" for a by (simp add: balance_of_def)
  have nn: "\<forall>a. 0 \<le> balance_of s a"
    using funded outgoing_nonneg order_trans by blast
  obtain s2 txs r where pt:
    "processTransactions H (nextBlockNumber s) (now div 1000) ?s1 (pendingTransactions s) = (s2, txs, r)"
    by (cases "processTransactions H (nextBlockNumber s) (now div 1000) ?s1 (pendingTransactions s)") auto
  have "\<forall>a. outgoing a (pendingTransactions s) \<le> balance_of ?s1 a"
    using funded by (simp add: b1)
  from processTransactions_funded [OF this pt] have n2: "\<forall>a. 0 \<le> balance_of s2 a" .
  have n3: "balance_of (s2 \<lparr> pendingTransactions := txs \<rparr>) a = balance_of s2 a" for a
    by (simp add: balance_of_def)
  have n4: "balance_of (addBlock u b) a = balance_of u a" for u b a
    by (simp add: balance_of_def accounts_addBlock)
  show ?thesis
    using nn n2 pt
    by (auto simp: mineBlock_def Let_def b1 n3 n4 split: option.splits)
qed

lemma genesis_balances: "\<forall>a. 0 \<le> balance_of (startServer H t) a"
  by (simp add: balance_of_def startServer_def startMining_def initP2PNode_def
      initGenesisBlock_def state0_def Let_def genesis_account_def)

lemma create_overdraft:
  "createTransaction sample_H sample_J 0 started (Some (AObj overdraft_params)) =
     Inr (submitted \<lparr> pendingTransactions := [] \<rparr>, overdraft_tx)"
proof -
  have "submitted \<lparr> pendingTransactions := [] \<rparr> =
      started \<lparr> accounts := accounts submitted \<rparr>"
    by (rule node_state.equality) (simp_all add: submitted_eq started_fields)
  then show ?thesis
    by (simp add: submitted_eq createTransaction_def overdraft_params_def started_accounts
        Let_def sample_H_def sample_J_def toString10_0 or_default_def truthy_def overdraft_tx_def
        genesis_account_def)
qed

lemma funded_eq: "funded = started \<lparr> pendingTransactions := [gossip_tx] \<rparr>"
  by (simp add: funded_def on_transaction_def started_fields)

lemma funded_pool: "\<forall>a. outgoing a (pendingTransactions funded) \<le> balance_of funded a"
  by (simp add: funded_eq transfer_amount_def gossip_tx_def truthy_def balance_of_def
      started_accounts genesis_account_def)

subsection \<open>The rotation of authorities\<close>

lemma length_AUTHORITIES: "length AUTHORITIES = 4"
  by (simp add: AUTHORITIES_def)














subsection \<open>The production after the first block\<close>

text \<open>
  After the first mined block is appended the chain has two blocks, yet
  \<^verbatim>\<open>state.nextBlockNumber\<close> is 17: the block's number is the string \<^verbatim>\<open>'0x1'\<close>, so
  \<^verbatim>\<open>block.number + 1\<close> is \<^verbatim>\<open>'0x11'\<close>. The next \<^verbatim>\<open>mineBlock\<close> that finds a transaction
  in the pool selects an authority and then throws at \<^verbatim>\<open>state.blocks[16].hash\<close>.
\<close>

lemma awaiting_eq:
  "awaiting = submitted \<lparr> currentAuthorityIndex := 1, accounts := overdrawn_accounts,
                pendingTransactions := [mined_tx] \<rparr>"
  by (simp add: awaiting_def run_def submitted_def [symmetric])
     (simp add: step_def mine_submitted)

lemma awaiting_fields:
  "blocks awaiting = blocks started" "transactions awaiting = []"
  "pendingTransactions awaiting = [mined_tx]" "nextBlockNumber awaiting = 1"
  "currentAuthorityIndex awaiting = 1"
  by (simp_all add: awaiting_eq submitted_eq started_fields)

lemma mined_block_fields:
  "b_hash mined_block = Some ''0xblock-1-1''" "b_number mined_block = HexStr 1"
  "b_transactions mined_block = [mined_tx]"
  by (simp_all add: mined_block_def)

lemma extended_fields:
  "blocks extended = blocks started @ [mined_block]" "transactions extended = [mined_tx]"
  "pendingTransactions extended = []" "nextBlockNumber extended = 17"
  "currentAuthorityIndex extended = 1"
proof -
  have "find (\<lambda>x. b_hash x = b_hash mined_block) (blocks awaiting) = None"
    by (simp add: awaiting_fields started_blocks mined_block_fields)
  then have e: "extended = awaiting \<lparr> blocks := blocks awaiting @ [mined_block],
      nextBlockNumber := max (nextBlockNumber awaiting) (plus_one (b_number mined_block)),
      pendingTransactions :=
        filter (\<lambda>tx. tx_hash tx \<notin> set (map tx_hash (b_transactions mined_block)))
          (pendingTransactions awaiting),
      transactions := transactions awaiting @ b_transactions mined_block \<rparr>"
    by (simp add: extended_def step_def mineBlock_resume_def addBlock_def)
  show "blocks extended = blocks started @ [mined_block]"
    "transactions extended = [mined_tx]" "pendingTransactions extended = []"
    "nextBlockNumber extended = 17" "currentAuthorityIndex extended = 1"
    unfolding e by (simp_all add: awaiting_fields mined_block_fields)
qed

lemma refilled_fields:
  "pendingTransactions refilled = [gossip_tx]" "nextBlockNumber refilled = 17"
  "length (blocks refilled) = 2" "currentAuthorityIndex refilled = 1"
  by (simp_all add: refilled_def step_def on_transaction_def extended_fields started_blocks)

lemma second_production_throws:
  "snd (mineBlock sample_H 11000 refilled) = Threw TypeError \<and>
   currentAuthorityIndex (fst (mineBlock sample_H 11000 refilled)) = 2"
  by (simp add: mineBlock_def refilled_fields Let_def selectAuthority_def length_AUTHORITIES)

subsection \<open>A production attempt that throws\<close>

lemma stalled_fields:
  "pendingTransactions stalled = [malformed_tx]" "blocks stalled = blocks started"
  "nextBlockNumber stalled = 1" "currentAuthorityIndex stalled = 0" "p2pNode stalled"
  by (simp_all add: stalled_def step_def handleRPCRequest_def processMethod_def
      malformed_request_def eth_sendTransaction_def param_def createTransaction_def
      malformed_params_def started_accounts started_fields Let_def sample_H_def sample_J_def
      toString10_0 or_default_def truthy_def malformed_tx_def genesis_account_def)

lemma mine_stalled:
  "snd (mineBlock sample_H 1000 stalled) = Threw SyntaxError \<and>
   blocks (fst (mineBlock sample_H 1000 stalled)) = blocks stalled \<and>
   currentAuthorityIndex (fst (mineBlock sample_H 1000 stalled)) = 1"
proof -
  have t: "transfer_amount malformed_tx = Inl SyntaxError"
    by (simp add: transfer_amount_def malformed_tx_def truthy_def)
  have p: "processTransactions sample_H n ts u [malformed_tx] = (u, [malformed_tx], Some SyntaxError)"
    for n ts u
    by (simp add: processTransaction_def t)
  show ?thesis
    by (simp add: mineBlock_def stalled_fields Let_def p selectAuthority_def length_AUTHORITIES
        started_blocks del: processTransactions.simps)
qed

lemma mineBlock_attempt_cursor:
  "currentAuthorityIndex (fst (mineBlock H now s)) =
     (if pendingTransactions s = [] then currentAuthorityIndex s
      else (currentAuthorityIndex s + 1) mod length AUTHORITIES)"
proof -
  let ?s1 = "s \<lparr> currentAuthorityIndex := snd (selectAuthority (currentAuthorityIndex s)) \<rparr>"
  obtain s2 txs r where pt:
    "processTransactions H (nextBlockNumber s) (now div 1000) ?s1 (pendingTransactions s) = (s2, txs, r)"
    by (cases "processTransactions H (nextBlockNumber s) (now div 1000) ?s1 (pendingTransactions s)") auto
  from processTransactions_frame [OF pt]
  have c2: "currentAuthorityIndex s2 = snd (selectAuthority (currentAuthorityIndex s))"
    by (simp add: same_but_ledger_def)
  have c3: "currentAuthorityIndex (addBlock u x) = currentAuthorityIndex u" for u x
    by (simp add: addBlock_def)
  have sel: "snd (selectAuthority c) = (c + 1) mod length AUTHORITIES" for c
    by (simp add: selectAuthority_def)
  show ?thesis
    using pt c2
    by (auto simp: mineBlock_def Let_def c3 sel split: if_splits option.splits)
qed

subsection \<open>The claims about validation and the chain\<close>

text \<open>
  Claim C1, as the code has it. A gossiped block is appended exactly when
  \<^verbatim>\<open>validateBlock\<close> accepts it and no stored block has its hash; otherwise the state
  is unchanged. \<^verbatim>\<open>addBlock\<close> itself, which also takes the locally mined blocks, appends
  exactly when no stored block has the hash. Neither compares the block's number with
  the height, and the parent of an appended gossiped block is some stored block, not
  necessarily the head (or the number is 0).
\<close>

theorem on_block_appends_iff:
  "((blocks (on_block s b) = blocks s @ [b]) =
      (validateBlock s b \<and> b_hash b \<notin> b_hash ` set (blocks s))) \<and>
   ((on_block s b = s) = (\<not> (validateBlock s b \<and> b_hash b \<notin> b_hash ` set (blocks s)))) \<and>
   ((blocks (addBlock s b) = blocks s @ [b]) = (b_hash b \<notin> b_hash ` set (blocks s))) \<and>
   ((addBlock s b = s) = (b_hash b \<in> b_hash ` set (blocks s))) \<and>
   (blocks (on_block s b) = blocks s @ [b] \<longrightarrow>
      b_parentHash b \<in> b_hash ` set (blocks s) \<or> b_number b = Num 0)"
proof -
  have known: "b_hash b \<in> b_hash ` set (blocks s) \<Longrightarrow> addBlock s b = s"
    by (rule addBlock_known)
  have new: "b_hash b \<notin> b_hash ` set (blocks s) \<Longrightarrow> blocks (addBlock s b) = blocks s @ [b]"
    by (rule addBlock_new)
  have add_append: "(blocks (addBlock s b) = blocks s @ [b]) = (b_hash b \<notin> b_hash ` set (blocks s))"
    using known new by (cases "b_hash b \<in> b_hash ` set (blocks s)") auto
  have add_same: "(addBlock s b = s) = (b_hash b \<in> b_hash ` set (blocks s))"
    using known new state_changed_if_appended [of "addBlock s b" s b] by blast
  have on_append: "(blocks (on_block s b) = blocks s @ [b]) =
      (validateBlock s b \<and> b_hash b \<notin> b_hash ` set (blocks s))"
    using add_append by (simp add: on_block_def)
  have on_same: "(on_block s b = s) = (\<not> (validateBlock s b \<and> b_hash b \<notin> b_hash ` set (blocks s)))"
    using add_same by (simp add: on_block_def)
  have parent: "blocks (on_block s b) = blocks s @ [b] \<longrightarrow>
      b_parentHash b \<in> b_hash ` set (blocks s) \<or> b_number b = Num 0"
    using on_append validateBlock_iff [of s b] by blast
  show ?thesis using add_append add_same on_append on_same parent by blast
qed

theorem on_block_appends_iff_witness:
  "blocks (on_block started peer_block1) = blocks started @ [peer_block1] \<and>
   on_block started outsider_block = started"
  using on_block_appends_iff [of started peer_block1] on_block_appends_iff [of started outsider_block]
    validate_peer_block1 reject_outsider_block
  by (simp add: started_hashes sample_blocks)

text \<open>
  The claim as stated fails: on a started node, a peer block numbered 7 is appended at
  height 1, and then a block whose parent is the genesis block, not the head. The stored
  chain is neither contiguous nor linked.
\<close>

theorem chain_linkage_counterexample:
  "blocks (on_block (on_block started peer_block7) peer_fork) =
     blocks started @ [peer_block7, peer_fork] \<and>
   number_value (b_number peer_block7) \<noteq> length (blocks started) \<and>
   b_parentHash peer_block7 = b_hash (last (blocks started)) \<and>
   number_value (b_number peer_fork) = length (blocks (on_block started peer_block7)) \<and>
   b_parentHash peer_fork \<noteq> b_hash (last (blocks (on_block started peer_block7))) \<and>
   \<not> spec_chain_invariant (blocks (on_block (on_block started peer_block7) peer_fork))"
  by (simp add: blocks_after_fork7 blocks_after_peer_block7 spec_chain_invariant_def)
     (simp add: started_blocks sample_blocks)

text \<open>
  Claim C2, as the code has it. \<^verbatim>\<open>validateBlock\<close> accepts a block exactly when its
  hash and parent hash are present, its parent hash is the hash of some block of the
  chain (any block, not only the head) or its number is 0, and its miner is an
  authority. The block handler changes the state only for an accepted block; a rejected
  block leaves the state, and with it the chain and the height, unchanged.
\<close>

theorem validateBlock_accepts_iff:
  "(validateBlock s b =
      (truthy (b_hash b) \<and> truthy (b_parentHash b) \<and>
       (b_parentHash b \<in> b_hash ` set (blocks s) \<or> b_number b = Num 0) \<and>
       (\<exists>m. b_miner b = Some m \<and> m \<in> set AUTHORITIES))) \<and>
   (on_block s b \<noteq> s \<longrightarrow> validateBlock s b) \<and>
   (\<not> validateBlock s b \<longrightarrow>
      on_block s b = s \<and> blocks (on_block s b) = blocks s \<and>
      nextBlockNumber (on_block s b) = nextBlockNumber s)"
proof -
  have "on_block s b \<noteq> s \<longrightarrow> validateBlock s b"
    by (simp add: on_block_def)
  moreover have "\<not> validateBlock s b \<longrightarrow>
      on_block s b = s \<and> blocks (on_block s b) = blocks s \<and>
      nextBlockNumber (on_block s b) = nextBlockNumber s"
    by (simp add: on_block_def)
  ultimately show ?thesis using validateBlock_iff [of s b] by blast
qed

theorem validateBlock_accepts_iff_witness:
  "\<not> validateBlock started outsider_block \<and> on_block started outsider_block = started \<and>
   nextBlockNumber (on_block started outsider_block) = 1 \<and>
   validateBlock started peer_block1 \<and> on_block started peer_block1 \<noteq> started"
  using validateBlock_accepts_iff [of started outsider_block]
    validateBlock_accepts_iff [of started peer_block1]
    state_changed_if_appended [OF blocks_after_peer_block1]
  by (simp add: started_hashes started_fields sample_blocks truthy_def AUTHORITIES_def)

text \<open>
  The claim as stated fails: with the chain of the genesis block and a first peer block,
  a block numbered 2 whose parent is the genesis block is accepted and appended,
  although its parent is not the head and it is not a genesis block.
\<close>

theorem parent_not_head_counterexample:
  "validateBlock (on_block started peer_block1) peer_fork \<and>
   b_parentHash peer_fork \<noteq> b_hash (last (blocks (on_block started peer_block1))) \<and>
   b_number peer_fork \<noteq> Num 0 \<and>
   blocks (on_block (on_block started peer_block1) peer_fork) =
     blocks (on_block started peer_block1) @ [peer_fork]"
  by (simp add: validate_fork_after_block1 blocks_after_fork1 blocks_after_peer_block1)
     (simp add: sample_blocks)

text \<open>
  Claim C8. A block whose hash some stored block already has is ignored by \<^verbatim>\<open>addBlock\<close>
  and by the block handler: the whole state (chain, transaction index, pool, accounts,
  contracts) is the state before.
\<close>

theorem redelivered_block_ignored:
  "b_hash b \<in> b_hash ` set (blocks s) \<Longrightarrow> addBlock s b = s \<and> on_block s b = s"
  by (simp add: on_block_def addBlock_known)

theorem redelivered_block_ignored_witness:
  "b_hash peer_block1 \<in> b_hash ` set (blocks (on_block started peer_block1)) \<and>
   addBlock (on_block started peer_block1) peer_block1 = on_block started peer_block1 \<and>
   on_block (on_block started peer_block1) peer_block1 = on_block started peer_block1"
proof -
  have h: "b_hash peer_block1 \<in> b_hash ` set (blocks (on_block started peer_block1))"
    by (simp add: hashes_after_peer_block1 sample_blocks)
  show ?thesis using h redelivered_block_ignored [OF h] by simp
qed

subsection \<open>The claims about the dispatcher\<close>

text \<open>
  Claim C6, as the code has it. A request that names a method outside the \<^verbatim>\<open>switch\<close>
  is answered with the member \<^verbatim>\<open>result: null\<close> and no \<^verbatim>\<open>error\<close> member; the node state
  is unchanged and nothing is left for the event loop. An unparseable payload is answered
  with the error object of code -32700, ``Parse error'', and the state is unchanged.
\<close>

theorem unknown_method_returns_null:
  "method \<notin> set known_methods \<Longrightarrow>
     handleRPCRequest H J now s (Some \<lparr> req_id = i, req_method = method, req_params = params \<rparr>) =
       (s, [], \<lparr> resp_jsonrpc = ''2.0'', resp_id = i, resp_result = Some RNull,
                 resp_error = None \<rparr>) \<and>
     handleRPCRequest H J now s None =
       (s, [], \<lparr> resp_jsonrpc = ''2.0'', resp_id = NoId, resp_result = None,
                 resp_error = Some \<lparr> code = - 32700, message = ''Parse error'', data = None \<rparr> \<rparr>)"
  by (simp add: handleRPCRequest_def processMethod_unknown)

theorem unknown_method_returns_null_witness:
  "''eth_foo'' \<notin> set known_methods \<and>
   handleRPCRequest sample_H sample_J 0 started (Some unknown_request) =
       (started, [], \<lparr> resp_jsonrpc = ''2.0'', resp_id = IdNum 1, resp_result = Some RNull,
                 resp_error = None \<rparr>) \<and>
   handleRPCRequest sample_H sample_J 0 started None =
       (started, [], \<lparr> resp_jsonrpc = ''2.0'', resp_id = NoId, resp_result = None,
                 resp_error = Some \<lparr> code = - 32700, message = ''Parse error'', data = None \<rparr> \<rparr>)"
proof -
  have h: "''eth_foo'' \<notin> set known_methods"
    by (simp add: known_methods_def)
  show ?thesis
    using h unknown_method_returns_null [OF h, of sample_H sample_J 0 started "IdNum 1" "Some []"]
    by (simp add: unknown_request_def)
qed

text \<open>
  The claim as stated fails: the response to the unknown method \<^verbatim>\<open>eth_foo\<close> has no error
  object, and its result is \<^verbatim>\<open>null\<close>.
\<close>

theorem unknown_method_no_error_counterexample:
  "resp_error (snd (snd (handleRPCRequest sample_H sample_J 0 started (Some unknown_request)))) = None \<and>
   resp_result (snd (snd (handleRPCRequest sample_H sample_J 0 started (Some unknown_request)))) = Some RNull"
  by (simp add: handleRPCRequest_def unknown_request_def processMethod_def)

text \<open>
  Claim C10. A request \<^verbatim>\<open>eth_sendTransaction\<close> whose \<^verbatim>\<open>from\<close> has no account record is
  answered with the error object of code -32603, ``Internal error''; the node state
  (pool, accounts, blocks, contracts, cursor) is the state before, and nothing is left for
  the event loop (no timer for \<^verbatim>\<open>mineBlock\<close>, no broadcast).
\<close>

theorem sendTransaction_unknown_sender:
  "map_of (accounts s) (p_from (fields_of a)) = None \<Longrightarrow>
     handleRPCRequest H J now s
        (Some \<lparr> req_id = i, req_method = ''eth_sendTransaction'', req_params = Some (a # rest) \<rparr>) =
       (s, [], \<lparr> resp_jsonrpc = ''2.0'', resp_id = i, resp_result = None,
                 resp_error = Some \<lparr> code = - 32603, message = ''Internal error'',
                                     data = Some TypeError \<rparr> \<rparr>)"
  by (simp add: handleRPCRequest_def processMethod_def eth_sendTransaction_def param_def
      createTransaction_no_account)

theorem sendTransaction_unknown_sender_witness:
  "map_of (accounts started) (p_from (fields_of (AObj stranger_params))) = None \<and>
   handleRPCRequest sample_H sample_J 0 started
        (Some \<lparr> req_id = IdNum 1, req_method = ''eth_sendTransaction'',
                req_params = Some [AObj stranger_params] \<rparr>) =
       (started, [], \<lparr> resp_jsonrpc = ''2.0'', resp_id = IdNum 1, resp_result = None,
                 resp_error = Some \<lparr> code = - 32603, message = ''Internal error'',
                                     data = Some TypeError \<rparr> \<rparr>)"
proof -
  have h: "map_of (accounts started) (p_from (fields_of (AObj stranger_params))) = None"
    by (simp add: started_accounts stranger_params_def)
  show ?thesis
    using h sendTransaction_unknown_sender [OF h, of sample_H sample_J 0 "IdNum 1" "[]"]
    by simp
qed

subsection \<open>The claim about the pool\<close>

text \<open>
  Claim C5, evaluated where the code departs from it. The gossip handler drops a
  transaction whose hash is in the pool, but \<^verbatim>\<open>eth_sendRawTransaction\<close> pushes without
  looking: the same raw payload sent twice to a started node (the interval timer is
  armed, so neither call mines) leaves two pending entries with one hash.
\<close>

theorem duplicate_raw_submission:
  "map tx_hash (pendingTransactions
      (run sample_H sample_J started [Rpc 0 (Some raw_request), Rpc 1 (Some raw_request)])) =
     [''0x0xabc'', ''0x0xabc''] \<and>
   on_transaction (on_transaction started gossip_tx) gossip_tx = on_transaction started gossip_tx"
proof -
  have acc: "map_of (accounts started) DEFAULT_SENDER = Some genesis_account"
    by (simp add: started_accounts DEFAULT_SENDER_def)
  note first = raw_once [OF started_fields(5) acc, of sample_H 0 "''0xabc''"]
  note second = raw_once [of "fst (eth_sendRawTransaction sample_H 0 started (Some [AStr ''0xabc'']))"
      _ sample_H 1 "''0xabc''"]
  have "map tx_hash (pendingTransactions
      (run sample_H sample_J started [Rpc 0 (Some raw_request), Rpc 1 (Some raw_request)])) =
     [''0x0xabc'', ''0x0xabc'']"
    using first second
    by (simp add: run_def raw_request_def step_raw started_fields sample_H_def)
  moreover have "on_transaction (on_transaction started gossip_tx) gossip_tx =
      on_transaction started gossip_tx"
    by (rule on_transaction_known) (simp add: on_transaction_def started_fields)
  ultimately show ?thesis by simp
qed

subsection \<open>The claim about receipts\<close>

text \<open>
  Claim C9. In every state the node reaches from its start, whatever the events,
  \<^verbatim>\<open>eth_getTransactionReceipt\<close> answers a hash that some block of the chain includes with
  a receipt for that hash whose status is \<^verbatim>\<open>0x1\<close>, and answers any other hash (pending
  or never seen) with the result \<^verbatim>\<open>null\<close> and no error; the state is unchanged.
\<close>

theorem receipt_iff_included:
  assumes "s = run H J (startServer H t0) es"
  shows "(h \<in> set (included_hashes s) \<longrightarrow>
           (\<exists>r. handleRPCRequest H J now s
                  (Some \<lparr> req_id = i, req_method = ''eth_getTransactionReceipt'',
                          req_params = Some (AStr h # rest) \<rparr>) =
                 (s, [], \<lparr> resp_jsonrpc = ''2.0'', resp_id = i,
                           resp_result = Some (RReceipt r), resp_error = None \<rparr>) \<and>
                r_transactionHash r = h \<and> r_status r = ''0x1'')) \<and>
         (h \<notin> set (included_hashes s) \<longrightarrow>
           handleRPCRequest H J now s
             (Some \<lparr> req_id = i, req_method = ''eth_getTransactionReceipt'',
                     req_params = Some (AStr h # rest) \<rparr>) =
           (s, [], \<lparr> resp_jsonrpc = ''2.0'', resp_id = i, resp_result = Some RNull,
                     resp_error = None \<rparr>))"
proof -
  have "tx_indexed s"
    unfolding assms by (rule tx_indexed_run) (rule tx_indexed_startServer)
  then have "map tx_hash (transactions s) = included_hashes s"
    by (simp add: tx_indexed_def)
  then have idx: "set (included_hashes s) = tx_hash ` set (transactions s)"
    by (metis set_map)
  show ?thesis
  proof (intro conjI impI)
    assume "h \<in> set (included_hashes s)"
    then have "h \<in> tx_hash ` set (transactions s)" using idx by simp
    from receipt_found [OF this, of rest] obtain r where
      "eth_getTransactionReceipt s (Some (AStr h # rest)) = Inr (RReceipt r)"
      "r_transactionHash r = h" "r_status r = ''0x1''" by blast
    then show "\<exists>r. handleRPCRequest H J now s
                  (Some \<lparr> req_id = i, req_method = ''eth_getTransactionReceipt'',
                          req_params = Some (AStr h # rest) \<rparr>) =
                 (s, [], \<lparr> resp_jsonrpc = ''2.0'', resp_id = i,
                           resp_result = Some (RReceipt r), resp_error = None \<rparr>) \<and>
                r_transactionHash r = h \<and> r_status r = ''0x1''"
      by (simp add: handle_receipt)
  next
    assume "h \<notin> set (included_hashes s)"
    then have "h \<notin> tx_hash ` set (transactions s)" using idx by simp
    from receipt_not_found [OF this, of rest]
    show "handleRPCRequest H J now s
             (Some \<lparr> req_id = i, req_method = ''eth_getTransactionReceipt'',
                     req_params = Some (AStr h # rest) \<rparr>) =
           (s, [], \<lparr> resp_jsonrpc = ''2.0'', resp_id = i, resp_result = Some RNull,
                     resp_error = None \<rparr>)"
      by (simp add: handle_receipt)
  qed
qed

theorem receipt_iff_included_witness:
  "(\<exists>r. handleRPCRequest sample_H sample_J 9
           (run sample_H sample_J (startServer sample_H 0) [GossipBlock peer_block_tx])
           (Some (receipt_request ''0xfeed'')) =
          (run sample_H sample_J (startServer sample_H 0) [GossipBlock peer_block_tx], [],
           \<lparr> resp_jsonrpc = ''2.0'', resp_id = IdNum 3, resp_result = Some (RReceipt r),
             resp_error = None \<rparr>) \<and>
         r_transactionHash r = ''0xfeed'' \<and> r_status r = ''0x1'') \<and>
   handleRPCRequest sample_H sample_J 9
      (run sample_H sample_J (startServer sample_H 0) [GossipBlock peer_block_tx])
      (Some (receipt_request ''0xdead'')) =
     (run sample_H sample_J (startServer sample_H 0) [GossipBlock peer_block_tx], [],
      \<lparr> resp_jsonrpc = ''2.0'', resp_id = IdNum 3, resp_result = Some RNull,
        resp_error = None \<rparr>)"
  using receipt_iff_included [OF refl, of "''0xfeed''" sample_H sample_J 0 "[GossipBlock peer_block_tx]" 9 "IdNum 3" "[]"]
    receipt_iff_included [OF refl, of "''0xdead''" sample_H sample_J 0 "[GossipBlock peer_block_tx]" 9 "IdNum 3" "[]"]
  by (simp add: included_after_peer_block_tx receipt_request_def)

subsection \<open>The claims about accounts\<close>

text \<open>
  Claim C3, as the code has it. The sender's nonce is incremented exactly once when the
  transaction is created: by \<^verbatim>\<open>createTransaction\<close> for \<^verbatim>\<open>eth_sendTransaction\<close> (the
  transaction carries the nonce before the increment, and no other account changes) and
  by \<^verbatim>\<open>eth_sendRawTransaction\<close> for the default sender. Block application, that is
  \<^verbatim>\<open>mineBlock\<close> and \<^verbatim>\<open>addBlock\<close>, changes no nonce of an existing account, and neither
  does the receipt of a gossiped transaction.
\<close>

theorem nonce_incremented_at_creation:
  "(createTransaction H J now s (Some a) = Inr (s', tx) \<longrightarrow>
      (\<exists>acc. map_of (accounts s) (p_from (fields_of a)) = Some acc \<and>
         map_of (accounts s') (p_from (fields_of a)) = Some (acc \<lparr> nonce := nonce acc + 1 \<rparr>) \<and>
         tx_from tx = p_from (fields_of a) \<and> tx_nonce tx = HexStr (nonce acc) \<and>
         (\<forall>x. x \<noteq> p_from (fields_of a) \<longrightarrow> map_of (accounts s') x = map_of (accounts s) x))) \<and>
   (map_of (accounts s) DEFAULT_SENDER = Some acc0 \<longrightarrow>
      (\<exists>acc'. map_of (accounts (fst (eth_sendRawTransaction H now s (Some (AStr raw # rest)))))
                 DEFAULT_SENDER = Some acc' \<and> nonce acc' = nonce acc0 + 1)) \<and>
   nonces_kept s (fst (mineBlock H now s)) \<and>
   accounts (addBlock s b) = accounts s \<and>
   accounts (on_transaction s gtx) = accounts s"
proof -
  have "accounts (on_transaction s gtx) = accounts s"
    by (simp add: on_transaction_def)
  then show ?thesis
    using createTransaction_nonce [of H J now s a s' tx] sendRaw_nonce [of s acc0 H now raw rest]
      mineBlock_nonces [of s H now] accounts_addBlock [of s b]
    by blast
qed

theorem nonce_incremented_at_creation_witness:
  "createTransaction sample_H sample_J 0 started (Some (AObj overdraft_params)) =
     Inr (submitted \<lparr> pendingTransactions := [] \<rparr>, overdraft_tx) \<and>
   map_of (accounts started) ''0x742d35Cc6634C0532925a3b844Bc454e4438f44e'' =
     Some \<lparr> balance = 1000000000000000000000, nonce = 0 \<rparr> \<and>
   map_of (accounts (submitted \<lparr> pendingTransactions := [] \<rparr>))
       ''0x742d35Cc6634C0532925a3b844Bc454e4438f44e'' =
     Some \<lparr> balance = 1000000000000000000000, nonce = 1 \<rparr> \<and>
   tx_nonce overdraft_tx = HexStr 0 \<and>
   nonces_kept submitted (fst (mineBlock sample_H 1000 submitted)) \<and>
   (\<exists>acc'. map_of (accounts (fst (eth_sendRawTransaction sample_H 0 started (Some [AStr ''0xabc'']))))
              DEFAULT_SENDER = Some acc' \<and> nonce acc' = 1)"
proof -
  have a0: "map_of (accounts started) DEFAULT_SENDER = Some genesis_account"
    by (simp add: started_accounts DEFAULT_SENDER_def)
  show ?thesis
    using create_overdraft a0
      nonce_incremented_at_creation [of sample_H sample_J 0 started "AObj overdraft_params"
        "submitted \<lparr> pendingTransactions := [] \<rparr>" overdraft_tx genesis_account "''0xabc''" "[]"
        peer_block1 gossip_tx]
      nonce_incremented_at_creation [of sample_H sample_J 1000 submitted "AObj overdraft_params"
        submitted overdraft_tx genesis_account "''0xabc''" "[]" peer_block1 gossip_tx]
    by (simp add: overdraft_params_def overdraft_tx_def genesis_account_def started_accounts)
qed

text \<open>
  The claim as stated fails: after \<^verbatim>\<open>eth_sendTransaction\<close> on a started node the
  transaction sits in the pool and its sender's nonce has gone from 0 to 1; the block
  that includes the transaction leaves the nonce at 1.
\<close>

theorem nonce_changed_in_pool_counterexample:
  "pendingTransactions submitted = [overdraft_tx] \<and>
   tx_from overdraft_tx = ''0x742d35Cc6634C0532925a3b844Bc454e4438f44e'' \<and>
   map_of (accounts started) ''0x742d35Cc6634C0532925a3b844Bc454e4438f44e'' =
     Some \<lparr> balance = 1000000000000000000000, nonce = 0 \<rparr> \<and>
   map_of (accounts submitted) ''0x742d35Cc6634C0532925a3b844Bc454e4438f44e'' =
     Some \<lparr> balance = 1000000000000000000000, nonce = 1 \<rparr> \<and>
   snd (mineBlock sample_H 1000 submitted) = Awaiting mined_block \<and>
   b_transactions mined_block = [mined_tx] \<and> tx_hash mined_tx = tx_hash overdraft_tx \<and>
   map_of (accounts (addBlock (fst (mineBlock sample_H 1000 submitted)) mined_block))
       ''0x742d35Cc6634C0532925a3b844Bc454e4438f44e'' =
     Some \<lparr> balance = - 1, nonce = 1 \<rparr>"
  by (simp add: mine_submitted accounts_addBlock overdrawn_accounts_def mined_block_def
      mined_tx_def)
     (simp add: submitted_eq started_accounts overdraft_tx_def genesis_account_def)

text \<open>
  Claim C7, as the code has it. Balances are integers, nonnegative at the start.
  \<^verbatim>\<open>mineBlock\<close> debits a sender without comparing the value with the balance; all
  balances are nonnegative after it when, for every address, the pending transfers out
  of it add up to no more than its balance. \<^verbatim>\<open>addBlock\<close> changes no balance.
\<close>

theorem balances_nonnegative_when_funded:
  "(\<forall>a. 0 \<le> balance_of (startServer H t) a) \<and>
   ((\<forall>a. outgoing a (pendingTransactions s) \<le> balance_of s a) \<longrightarrow>
      (\<forall>a. 0 \<le> balance_of (fst (mineBlock H now s)) a)) \<and>
   (\<forall>a. balance_of (addBlock s b) a = balance_of s a)"
  using genesis_balances [of H t] mineBlock_funded [of s H now]
  by (simp add: balance_of_def accounts_addBlock)

theorem balances_nonnegative_when_funded_witness:
  "(\<forall>a. outgoing a (pendingTransactions funded) \<le> balance_of funded a) \<and>
   (\<forall>a. 0 \<le> balance_of (fst (mineBlock sample_H 1000 funded)) a) \<and>
   (\<forall>a. 0 \<le> balance_of started a)"
  using funded_pool
    balances_nonnegative_when_funded [of sample_H 0 funded 1000 peer_block1]
  by (simp add: started_def)

text \<open>
  The claim as stated fails: a started node that is sent a transfer of one wei more than
  the sender's balance, and then mines, holds the sender's balance at -1.
\<close>

theorem balance_below_zero_counterexample:
  "map_of (accounts (run sample_H sample_J (startServer sample_H 0)
        [Rpc 0 (Some overdraft_request), MineTimer 1000]))
     ''0x742d35Cc6634C0532925a3b844Bc454e4438f44e'' = Some \<lparr> balance = - 1, nonce = 1 \<rparr> \<and>
   balance_of (run sample_H sample_J (startServer sample_H 0)
        [Rpc 0 (Some overdraft_request), MineTimer 1000])
     ''0x742d35Cc6634C0532925a3b844Bc454e4438f44e'' < 0"
  by (simp add: run_def started_def [symmetric] submitted_def [symmetric] balance_of_def)
     (simp add: step_def mine_submitted overdrawn_accounts_def)

subsection \<open>The claim about the rotation\<close>



end
